theory Spec2Isabelle
  imports Complex_Main "HOL-Library.Monad_Syntax"
begin

section \<open>The one-task inverse-kinematics controller\<close>

text \<open>
  A shallow embedding of \<^verbatim>\<open>kuka_controllers/src/one_task_inverse_kinematics.cpp\<close>.

  The controller is a C++ class; its member functions become functions that take the
  controller object (a record of its data members) and return the updated object.
  Three conventions hold throughout.

  \<^item> \<^bold>\<open>Scalars.\<close> Every \<^verbatim>\<open>double\<close> is a value of a type \<open>'a\<close> of which only
    the operations the code applies are required (\<open>0\<close>, \<open>1\<close>, \<open>+\<close>, \<open>-\<close>, \<open>*\<close>, \<open>/\<close>
    as syntactic type classes, without any algebraic law). A theorem stated at this
    generality holds for every arithmetic, that of IEEE 754 with its infinities and
    not-a-numbers among them; where a fact of arithmetic is needed it is a
    hypothesis of the theorem, about the values it is used for.
  \<^item> \<^bold>\<open>Libraries.\<close> The kinematics solvers, the PID law, the pseudo-inverse helper
    (\<^verbatim>\<open>misc/pseudo_inversion.h\<close>) and the parameter server are not part of the source
    file. They are parameters of the model: fields of the records \<open>Library\<close> and
    \<open>World\<close>. An output argument of a library call is modelled by a function that
    takes the previous content of the argument and returns its new content, so that
    nothing is assumed about what the library writes.
  \<^item> \<^bold>\<open>Undefined behaviour.\<close> An element access out of range and a call through a
    null solver pointer have no defined result in C++; the model returns \<open>None\<close>
    there. \<open>Some s\<close> is a call that returns, with \<open>s\<close> the object afterwards.

  The class declaration (\<^verbatim>\<open>one_task_inverse_kinematics.h\<close>) is not part of the sources
  either: the data members are those the member functions use, with the types their
  uses require. A name cannot end in an underscore here, so the data member
  \<^verbatim>\<open>x_des_\<close> is the field \<open>x_des\<close>, and so on.
\<close>

subsection \<open>Vectors, rotations, frames and twists (KDL)\<close>

datatype 'a Vector = Vector 'a 'a 'a

text \<open>\<^verbatim>\<open>Vector::operator()(int)\<close>, read and write; the components are 0, 1 and 2.\<close>

fun Vector_get :: "'a Vector \<Rightarrow> nat \<Rightarrow> 'a option" where
  "Vector_get (Vector a b c) i =
     (if i = 0 then Some a else if i = 1 then Some b else if i = 2 then Some c else None)"

fun Vector_set :: "'a Vector \<Rightarrow> nat \<Rightarrow> 'a \<Rightarrow> 'a Vector option" where
  "Vector_set (Vector a b c) i v =
     (if i = 0 then Some (Vector v b c)
      else if i = 1 then Some (Vector a v c)
      else if i = 2 then Some (Vector a b v)
      else None)"

text \<open>\<^verbatim>\<open>operator-(const Vector&, const Vector&)\<close>, component by component.\<close>

fun Vector_minus :: "'a::minus Vector \<Rightarrow> 'a Vector \<Rightarrow> 'a Vector" where
  "Vector_minus (Vector a b c) (Vector a' b' c') = Vector (a - a') (b - b') (c - c')"

definition Vector_Zero :: "'a::zero Vector" where
  "Vector_Zero = Vector 0 0 0"

text \<open>A rotation matrix, row by row (\<^verbatim>\<open>double data[9]\<close>).\<close>

datatype 'a Rotation = Rotation 'a 'a 'a  'a 'a 'a  'a 'a 'a

definition Rotation_Identity :: "'a::{zero,one} Rotation" where
  "Rotation_Identity = Rotation 1 0 0  0 1 0  0 0 1"

record 'a Frame =
  M :: "'a Rotation"
  p :: "'a Vector"

text \<open>
  \<^verbatim>\<open>explicit Frame(const Vector& V)\<close>: the frame at position \<open>V\<close>; the library gives
  it the identity rotation.
\<close>

definition Frame_of_Vector :: "'a::{zero,one} Vector \<Rightarrow> 'a Frame" where
  "Frame_of_Vector V = \<lparr>M = Rotation_Identity, p = V\<rparr>"

record 'a Twist =
  vel :: "'a Vector"
  rot :: "'a Vector"

text \<open>
  \<^verbatim>\<open>Twist::operator()(int i)\<close>: components 0 to 2 are the linear part, 3 to 5 the
  angular part.
\<close>

definition Twist_get :: "'a Twist \<Rightarrow> nat \<Rightarrow> 'a option" where
  "Twist_get t i = (if i \<le> 2 then Vector_get (vel t) i else Vector_get (rot t) (i - 3))"

subsection \<open>Joint arrays and matrices\<close>

text \<open>
  A \<^verbatim>\<open>KDL::JntArray\<close> and a \<^verbatim>\<open>std::vector\<close> are the lists of their elements. Reading
  and writing element \<open>i\<close> (\<^verbatim>\<open>a(i)\<close>, \<^verbatim>\<open>v[i]\<close>) is defined for \<open>i\<close> below the size only.
\<close>

definition elem_get :: "'a list \<Rightarrow> nat \<Rightarrow> 'a option" where
  "elem_get xs i = (if i < length xs then Some (xs ! i) else None)"

definition elem_set :: "'a list \<Rightarrow> nat \<Rightarrow> 'a \<Rightarrow> 'a list option" where
  "elem_set xs i v = (if i < length xs then Some (xs[i := v]) else None)"

record 'a JntArrayVel =
  q :: "'a list"
  qdot :: "'a list"

text \<open>
  A dense matrix: its shape, and the coefficient at a row and a column. The Jacobian
  (\<^verbatim>\<open>KDL::Jacobian\<close>, six rows and one column per joint) and the pseudo-inverse are
  values of this type.
\<close>

record 'a Matrix =
  rows :: nat
  cols :: nat
  coeff :: "nat \<Rightarrow> nat \<Rightarrow> 'a"

subsection \<open>Joint handles and PID controllers (ros_control, control_toolbox)\<close>

text \<open>
  A joint handle gives access to the registers of one joint of the hardware:
  \<^verbatim>\<open>getPosition()\<close>, \<^verbatim>\<open>getVelocity()\<close> and \<^verbatim>\<open>getEffort()\<close> read \<open>position\<close>,
  \<open>velocity\<close> and \<open>effort\<close>; \<^verbatim>\<open>setCommand(c)\<close> writes \<open>command\<close>. The hardware changes
  the first three between two calls of the controller.
\<close>

record 'a JointHandle =
  name :: string
  position :: 'a
  velocity :: 'a
  effort :: 'a
  command :: 'a

definition setCommand :: "'a \<Rightarrow> 'a JointHandle \<Rightarrow> 'a JointHandle" where
  "setCommand c h = h\<lparr>command := c\<rparr>"

text \<open>
  A PID controller holds its gains and the errors it has accumulated.
  \<^verbatim>\<open>setGains\<close> replaces the gains; \<^verbatim>\<open>initPid\<close> replaces the gains and resets the
  errors; \<^verbatim>\<open>computeCommand\<close> reads the gains and updates the errors by the
  library's control law, a parameter here (\<open>Pid_law\<close>).
\<close>

record 'a Gains =
  p_gain :: 'a
  i_gain :: 'a
  d_gain :: 'a
  i_max :: 'a
  i_min :: 'a

record 'a PidErrors =
  p_error_last :: 'a
  p_error :: 'a
  i_error :: 'a
  d_error :: 'a
  cmd :: 'a

record 'a Pid =
  gains :: "'a Gains"
  errors :: "'a PidErrors"

definition setGains :: "'a \<Rightarrow> 'a \<Rightarrow> 'a \<Rightarrow> 'a \<Rightarrow> 'a \<Rightarrow> 'a Pid \<Rightarrow> 'a Pid" where
  "setGains P I D I1 I2 pid =
     pid\<lparr>gains := \<lparr>p_gain = P, i_gain = I, d_gain = D, i_max = I1, i_min = I2\<rparr>\<rparr>"

definition Pid_reset :: "'a::zero Pid \<Rightarrow> 'a Pid" where
  "Pid_reset pid =
     pid\<lparr>errors := \<lparr>p_error_last = 0, p_error = 0, i_error = 0, d_error = 0, cmd = 0\<rparr>\<rparr>"

definition initPid :: "'a \<Rightarrow> 'a \<Rightarrow> 'a \<Rightarrow> 'a \<Rightarrow> 'a \<Rightarrow> 'a::zero Pid \<Rightarrow> 'a Pid" where
  "initPid P I D I1 I2 pid = Pid_reset (setGains P I D I1 I2 pid)"

text \<open>The default-constructed controller: all gains zero, no error accumulated.\<close>

definition Pid_default :: "'a::zero Pid" where
  "Pid_default =
     \<lparr>gains = \<lparr>p_gain = 0, i_gain = 0, d_gain = 0, i_max = 0, i_min = 0\<rparr>,
      errors = \<lparr>p_error_last = 0, p_error = 0, i_error = 0, d_error = 0, cmd = 0\<rparr>\<rparr>"

subsection \<open>Chains and solvers (KDL)\<close>

text \<open>
  The types of joint; \<open>None_joint\<close> (\<^verbatim>\<open>Joint::None\<close>) is the rigid connection of a fixed
  joint. A chain keeps the order of its segments; of a segment the controller reads the
  name of its joint only.
\<close>

datatype JointType =
  RotAxis | RotX | RotY | RotZ | TransAxis | TransX | TransY | TransZ | None_joint

record Joint =
  joint_name :: string
  joint_type :: JointType

record Segment =
  segment_name :: string
  joint :: Joint

record Chain =
  segments :: "Segment list"

text \<open>\<^verbatim>\<open>Chain::getNrOfJoints()\<close>: the segments whose joint can move.\<close>

definition getNrOfJoints :: "Chain \<Rightarrow> nat" where
  "getNrOfJoints c = length (filter (\<lambda>sg. joint_type (joint sg) \<noteq> None_joint) (segments c))"

definition getNrOfSegments :: "Chain \<Rightarrow> nat" where
  "getNrOfSegments c = length (segments c)"

text \<open>
  A solver object is determined by the arguments of its constructor. What a solver
  computes is a parameter of the model (a field of \<open>Library\<close>), a function of the
  solver object among others.
\<close>

datatype 'a Solver =
    ChainJntToJacSolver Chain
  | ChainDynParam Chain "'a Vector"
  | ChainFkSolverPos_recursive Chain
  | ChainIkSolverVel_pinv Chain
  | ChainIkSolverPos_NR Chain "'a Solver" "'a Solver"

subsection \<open>Time, messages and subscriptions (ROS)\<close>

record Time =
  time_sec :: nat
  time_nsec :: nat

record Duration =
  duration_sec :: int
  duration_nsec :: int

record 'a Point =
  point_x :: 'a
  point_y :: 'a
  point_z :: 'a

record 'a Quaternion =
  quaternion_x :: 'a
  quaternion_y :: 'a
  quaternion_z :: 'a
  quaternion_w :: 'a

record 'a Pose =
  pose_position :: "'a Point"
  pose_orientation :: "'a Quaternion"

record Header =
  seq :: nat
  stamp :: Time
  frame_id :: string

record 'a PoseStamped =
  header :: Header
  pose :: "'a Pose"

record 'a Float64MultiArray =
  data :: "'a list"

datatype Callback = Callback_command_configuration | Callback_set_gains

record Subscriber =
  topic :: string
  queue_size :: nat
  callback :: Callback

record NodeHandle =
  namespace :: string
  shut_down :: bool

subsection \<open>The controller object\<close>

record 'a OneTaskInverseKinematics =
  nh :: NodeHandle
  kdl_chain :: Chain
  joint_handles :: "'a JointHandle list"
  joint_msr_states :: "'a JntArrayVel"
  joint_des_states :: "'a JntArrayVel"
  tau_cmd :: "'a list"
  J :: "'a Matrix"
  J_pinv :: "'a Matrix"
  x :: "'a Frame"
  x_des :: "'a Frame"
  x_err :: "'a Twist"
  PIDs :: "'a Pid list"
  jnt_to_jac_solver :: "'a Solver option"
  id_solver :: "'a Solver option"
  fk_pos_solver :: "'a Solver option"
  ik_vel_solver :: "'a Solver option"
  ik_pos_solver :: "'a Solver option"
  sub_command :: "Subscriber option"
  sub_gains :: "Subscriber option"

text \<open>
  The library functions the cyclic part of the controller calls.
  \<^item> \<open>JntToJac sv qs J\<close>: the content of the Jacobian \<open>J\<close> after
    \<^verbatim>\<open>sv->JntToJac(qs, J)\<close>;
  \<^item> \<open>JntToCart sv qs F\<close>: the content of the frame \<open>F\<close> after \<^verbatim>\<open>sv->JntToCart(qs, F)\<close>;
  \<^item> \<open>pseudo_inverse J P\<close>: the content of the matrix \<open>P\<close> after
    \<^verbatim>\<open>pseudo_inverse(J, P)\<close>;
  \<^item> \<open>Pid_law g e err dt\<close>: the command \<^verbatim>\<open>computeCommand(err, dt)\<close> returns for a
    controller with gains \<open>g\<close> and errors \<open>e\<close>, and its errors afterwards;
  \<^item> \<open>toSec d\<close>: the duration in seconds, as a \<^verbatim>\<open>double\<close>.
\<close>

record 'a Library =
  JntToJac :: "'a Solver \<Rightarrow> 'a list \<Rightarrow> 'a Matrix \<Rightarrow> 'a Matrix"
  JntToCart :: "'a Solver \<Rightarrow> 'a list \<Rightarrow> 'a Frame \<Rightarrow> 'a Frame"
  pseudo_inverse :: "'a Matrix \<Rightarrow> 'a Matrix \<Rightarrow> 'a Matrix"
  Pid_law :: "'a Gains \<Rightarrow> 'a PidErrors \<Rightarrow> 'a \<Rightarrow> Duration \<Rightarrow> 'a \<times> 'a PidErrors"
  toSec :: "Duration \<Rightarrow> 'a"

definition computeCommand :: "'a Library \<Rightarrow> 'a Pid \<Rightarrow> 'a \<Rightarrow> Duration \<Rightarrow> 'a \<times> 'a Pid" where
  "computeCommand lib pid err dt =
     (case Pid_law lib (gains pid) (errors pid) err dt of
        (c, e') \<Rightarrow> (c, pid\<lparr>errors := e'\<rparr>))"

subsection \<open>Loops\<close>

text \<open>
  \<^verbatim>\<open>for (int i = 0; i < n; i++) body\<close> runs the body at \<open>0, 1, ...\<close> in this order and
  stops where the body has no defined result. No loop of the controller changes its
  own bound.
\<close>

fun for_loop :: "nat list \<Rightarrow> (nat \<Rightarrow> 's \<Rightarrow> 's option) \<Rightarrow> 's \<Rightarrow> 's option" where
  "for_loop [] body s = Some s"
| "for_loop (i # js) body s =
     (case body i s of None \<Rightarrow> None | Some s' \<Rightarrow> for_loop js body s')"

text \<open>
  An integer literal as a \<^verbatim>\<open>double\<close>: the value counted up from zero in steps of one.
\<close>

primrec double_of_nat :: "nat \<Rightarrow> 'a::{zero,one,plus}" where
  "double_of_nat 0 = 0"
| "double_of_nat (Suc n) = double_of_nat n + 1"

subsection \<open>Activation: \<^verbatim>\<open>starting\<close> (lines 131 to 152)\<close>

text \<open>The body of the first loop (lines 136 to 138), at joint \<open>i\<close>.\<close>

definition starting_joint ::
  "nat \<Rightarrow> 'a OneTaskInverseKinematics \<Rightarrow> 'a OneTaskInverseKinematics option" where
  "starting_joint i s = do {
     h \<leftarrow> elem_get (joint_handles s) i;
     qs \<leftarrow> elem_set (q (joint_msr_states s)) i (position h);
     qds \<leftarrow> elem_set (qdot (joint_msr_states s)) i (velocity h);
     v \<leftarrow> elem_get qs i;
     dqs \<leftarrow> elem_set (q (joint_des_states s)) i v;
     Some (s\<lparr>joint_msr_states := (joint_msr_states s)\<lparr>q := qs, qdot := qds\<rparr>,
             joint_des_states := (joint_des_states s)\<lparr>q := dqs\<rparr>\<rparr>)
   }"

text \<open>The body of the second loop (line 142): \<^verbatim>\<open>PIDs_[i].initPid(100,1,0,0.0,0.0)\<close>.\<close>

definition starting_pid ::
  "nat \<Rightarrow> 'a::{zero,one,plus} OneTaskInverseKinematics \<Rightarrow> 'a OneTaskInverseKinematics option" where
  "starting_pid i s = do {
     pid \<leftarrow> elem_get (PIDs s) i;
     Some (s\<lparr>PIDs := (PIDs s)[i := initPid (double_of_nat 100) 1 0 0 0 pid]\<rparr>)
   }"

text \<open>
  \<^verbatim>\<open>fk_pos_solver_->JntToCart(joint_msr_states_.q, x_)\<close> (lines 148 and 171).
\<close>

definition computing_forward_kinematics ::
  "'a Library \<Rightarrow> 'a OneTaskInverseKinematics \<Rightarrow> 'a OneTaskInverseKinematics option" where
  "computing_forward_kinematics lib s =
     (case fk_pos_solver s of
        None \<Rightarrow> None
      | Some sv \<Rightarrow> Some (s\<lparr>x := JntToCart lib sv (q (joint_msr_states s)) (x s)\<rparr>))"

definition starting ::
  "'a::{zero,one,plus} Library \<Rightarrow> Time \<Rightarrow> 'a OneTaskInverseKinematics
     \<Rightarrow> 'a OneTaskInverseKinematics option" where
  "starting lib time s = do {
     s1 \<leftarrow> for_loop [0..<length (joint_handles s)] starting_joint s;
     s2 \<leftarrow> for_loop [0..<length (PIDs s1)] starting_pid s1;
     s3 \<leftarrow> computing_forward_kinematics lib s2;
     Some (s3\<lparr>x_des := x s3\<rparr>)
   }"

subsection \<open>The control cycle: \<^verbatim>\<open>update\<close> (lines 154 to 197)\<close>

text \<open>Lines 160 and 161: the body of the loop that reads the joints.\<close>

definition get_joint_positions ::
  "nat \<Rightarrow> 'a OneTaskInverseKinematics \<Rightarrow> 'a OneTaskInverseKinematics option" where
  "get_joint_positions i s = do {
     h \<leftarrow> elem_get (joint_handles s) i;
     qs \<leftarrow> elem_set (q (joint_msr_states s)) i (position h);
     qds \<leftarrow> elem_set (qdot (joint_msr_states s)) i (velocity h);
     Some (s\<lparr>joint_msr_states := (joint_msr_states s)\<lparr>q := qs, qdot := qds\<rparr>\<rparr>)
   }"

text \<open>Line 165: \<^verbatim>\<open>jnt_to_jac_solver_->JntToJac(joint_msr_states_.q, J_)\<close>.\<close>

definition computing_Jacobian ::
  "'a Library \<Rightarrow> 'a OneTaskInverseKinematics \<Rightarrow> 'a OneTaskInverseKinematics option" where
  "computing_Jacobian lib s =
     (case jnt_to_jac_solver s of
        None \<Rightarrow> None
      | Some sv \<Rightarrow> Some (s\<lparr>J := JntToJac lib sv (q (joint_msr_states s)) (J s)\<rparr>))"

text \<open>Line 168: \<^verbatim>\<open>pseudo_inverse(J_, J_pinv_)\<close>.\<close>

definition computing_J_pinv ::
  "'a Library \<Rightarrow> 'a OneTaskInverseKinematics \<Rightarrow> 'a OneTaskInverseKinematics" where
  "computing_J_pinv lib s = s\<lparr>J_pinv := pseudo_inverse lib (J s) (J_pinv s)\<rparr>"

text \<open>
  Lines 174 to 177: \<^verbatim>\<open>x_err_.vel = x_des_.p - x_.p\<close>, then the loop
  \<^verbatim>\<open>x_err_.rot(i) = 0.0\<close> for \<open>i\<close> from 0 to 2.
\<close>

definition zero_rot ::
  "nat \<Rightarrow> 'a::zero OneTaskInverseKinematics \<Rightarrow> 'a OneTaskInverseKinematics option" where
  "zero_rot i s = do {
     r \<leftarrow> Vector_set (rot (x_err s)) i 0;
     Some (s\<lparr>x_err := (x_err s)\<lparr>rot := r\<rparr>\<rparr>)
   }"

definition end_effector_displacement ::
  "'a::{zero,minus} OneTaskInverseKinematics \<Rightarrow> 'a OneTaskInverseKinematics option" where
  "end_effector_displacement s =
     for_loop [0..<3] zero_rot
       (s\<lparr>x_err := (x_err s)\<lparr>vel := Vector_minus (p (x_des s)) (p (x s))\<rparr>\<rparr>)"

text \<open>
  Lines 180 to 185. The inner loop body, at row \<open>i\<close> and column \<open>k\<close>:
  \<^verbatim>\<open>joint_des_states_.qdot(i) += J_pinv_(i,k)*(x_err_(k))\<close>.
\<close>

definition q_dot_add ::
  "nat \<Rightarrow> nat \<Rightarrow> 'a::{plus,times} OneTaskInverseKinematics
     \<Rightarrow> 'a OneTaskInverseKinematics option" where
  "q_dot_add i k s = do {
     e \<leftarrow> Twist_get (x_err s) k;
     a \<leftarrow> elem_get (qdot (joint_des_states s)) i;
     qds \<leftarrow> elem_set (qdot (joint_des_states s)) i (a + coeff (J_pinv s) i k * e);
     Some (s\<lparr>joint_des_states := (joint_des_states s)\<lparr>qdot := qds\<rparr>\<rparr>)
   }"

definition computing_q_dot ::
  "nat \<Rightarrow> 'a::{zero,plus,times} OneTaskInverseKinematics
     \<Rightarrow> 'a OneTaskInverseKinematics option" where
  "computing_q_dot i s = do {
     qds \<leftarrow> elem_set (qdot (joint_des_states s)) i 0;
     for_loop [0..<cols (J_pinv s)] (q_dot_add i)
       (s\<lparr>joint_des_states := (joint_des_states s)\<lparr>qdot := qds\<rparr>\<rparr>)
   }"

text \<open>
  Line 189: \<^verbatim>\<open>joint_des_states_.q(i) += period.toSec()*joint_des_states_.qdot(i)\<close>.
\<close>

definition integrating_q_dot ::
  "'a::{plus,times} Library \<Rightarrow> Duration \<Rightarrow> nat \<Rightarrow> 'a OneTaskInverseKinematics
     \<Rightarrow> 'a OneTaskInverseKinematics option" where
  "integrating_q_dot lib period i s = do {
     a \<leftarrow> elem_get (q (joint_des_states s)) i;
     b \<leftarrow> elem_get (qdot (joint_des_states s)) i;
     qs \<leftarrow> elem_set (q (joint_des_states s)) i (a + toSec lib period * b);
     Some (s\<lparr>joint_des_states := (joint_des_states s)\<lparr>q := qs\<rparr>\<rparr>)
   }"

text \<open>
  Lines 194 and 195: the PID of joint \<open>i\<close> computes the torque from the difference of
  the desired and the measured position, and the torque is written to the joint.
\<close>

definition set_controls_for_joints ::
  "'a::minus Library \<Rightarrow> Duration \<Rightarrow> nat \<Rightarrow> 'a OneTaskInverseKinematics
     \<Rightarrow> 'a OneTaskInverseKinematics option" where
  "set_controls_for_joints lib period i s = do {
     a \<leftarrow> elem_get (q (joint_des_states s)) i;
     b \<leftarrow> elem_get (q (joint_msr_states s)) i;
     pid \<leftarrow> elem_get (PIDs s) i;
     (c, pid') \<leftarrow> Some (computeCommand lib pid (a - b) period);
     tau \<leftarrow> elem_set (tau_cmd s) i c;
     h \<leftarrow> elem_get (joint_handles s) i;
     Some (s\<lparr>PIDs := (PIDs s)[i := pid'],
             tau_cmd := tau,
             joint_handles := (joint_handles s)[i := setCommand c h]\<rparr>)
   }"

definition update ::
  "'a::{zero,plus,minus,times} Library \<Rightarrow> Time \<Rightarrow> Duration \<Rightarrow> 'a OneTaskInverseKinematics
     \<Rightarrow> 'a OneTaskInverseKinematics option" where
  "update lib time period s = do {
     s1 \<leftarrow> for_loop [0..<length (joint_handles s)] get_joint_positions s;
     s2 \<leftarrow> computing_Jacobian lib s1;
     s3 \<leftarrow> computing_forward_kinematics lib (computing_J_pinv lib s2);
     s4 \<leftarrow> end_effector_displacement s3;
     s5 \<leftarrow> for_loop [0..<rows (J_pinv s4)] computing_q_dot s4;
     s6 \<leftarrow> for_loop [0..<length (joint_handles s5)] (integrating_q_dot lib period) s5;
     for_loop [0..<length (joint_handles s6)] (set_controls_for_joints lib period) s6
   }"

subsection \<open>The message handlers (lines 199 to 219)\<close>

text \<open>
  \<^verbatim>\<open>command_configuration\<close>: a frame is built from the position of the message and
  assigned to \<^verbatim>\<open>x_des_\<close>.
\<close>

definition command_configuration ::
  "'a::{zero,one} PoseStamped \<Rightarrow> 'a OneTaskInverseKinematics \<Rightarrow> 'a OneTaskInverseKinematics" where
  "command_configuration msg s =
     (let frame_des = Frame_of_Vector
            (Vector (point_x (pose_position (pose msg)))
                    (point_y (pose_position (pose msg)))
                    (point_z (pose_position (pose msg))))
      in s\<lparr>x_des := frame_des\<rparr>)"

text \<open>
  \<^verbatim>\<open>set_gains\<close>. The loop body (line 215):
  \<^verbatim>\<open>PIDs_[i].setGains(msg->data[i], msg->data[i + PIDs_.size()], 0.0, 0.0, 0.0)\<close>.
  The message logged in the other branch is not modelled.
\<close>

definition set_gains_pid ::
  "'a::zero Float64MultiArray \<Rightarrow> nat \<Rightarrow> 'a OneTaskInverseKinematics
     \<Rightarrow> 'a OneTaskInverseKinematics option" where
  "set_gains_pid msg i s = do {
     kp \<leftarrow> elem_get (data msg) i;
     ki \<leftarrow> elem_get (data msg) (i + length (PIDs s));
     pid \<leftarrow> elem_get (PIDs s) i;
     Some (s\<lparr>PIDs := (PIDs s)[i := setGains kp ki 0 0 0 pid]\<rparr>)
   }"

definition set_gains ::
  "'a::zero Float64MultiArray \<Rightarrow> 'a OneTaskInverseKinematics
     \<Rightarrow> 'a OneTaskInverseKinematics option" where
  "set_gains msg s =
     (if length (data msg) = 2 * length (PIDs s)
      then for_loop [0..<length (PIDs s)] (set_gains_pid msg) s
      else Some s)"

subsection \<open>Initialisation: \<^verbatim>\<open>init\<close> (lines 13 to 129)\<close>

text \<open>
  What \<^verbatim>\<open>init\<close> reads from its environment: the parameter server, the parser of
  the robot description and the construction of the kinematic tree. The types \<open>'m\<close>
  (a parsed robot model) and \<open>'t\<close> (a kinematic tree) are never inspected by the
  controller.
  \<^item> \<open>param_search ns key\<close>: the name \<^verbatim>\<open>ros::param::search(ns, key, result)\<close>
    finds, if any;
  \<^item> \<open>getParam nh key\<close>: the string \<^verbatim>\<open>nh.getParam(key, str)\<close> stores, if it
    returns true;
  \<^item> \<open>hasParam nh key\<close>: \<^verbatim>\<open>nh.hasParam(key)\<close>;
  \<^item> \<open>initString xml\<close>: the model \<^verbatim>\<open>model.initString(xml)\<close> builds, if it
    returns true;
  \<^item> \<open>treeFromUrdfModel m\<close>: the tree \<^verbatim>\<open>kdl_parser::treeFromUrdfModel(m, tree)\<close>
    builds, if it returns true;
  \<^item> \<open>getChain tree root tip c\<close>: what \<^verbatim>\<open>tree.getChain(root, tip, c)\<close> returns,
    and the content of \<open>c\<close> afterwards.
\<close>

record ('m, 't) World =
  param_search :: "string \<Rightarrow> string \<Rightarrow> string option"
  getParam :: "NodeHandle \<Rightarrow> string \<Rightarrow> string option"
  hasParam :: "NodeHandle \<Rightarrow> string \<Rightarrow> bool"
  initString :: "string \<Rightarrow> 'm option"
  treeFromUrdfModel :: "'m \<Rightarrow> 't option"
  getChain :: "'t \<Rightarrow> string \<Rightarrow> string \<Rightarrow> Chain \<Rightarrow> bool \<times> Chain"

text \<open>
  The hardware interface: \<^verbatim>\<open>robot->getHandle(name)\<close> returns the handle of the
  joint of that name, and throws where the interface has no such joint (\<open>None\<close>).
\<close>

type_synonym 'a EffortJointInterface = "string \<Rightarrow> 'a JointHandle option"

datatype init_error = HardwareInterfaceException | UndefinedBehaviour

definition shutdown :: "NodeHandle \<Rightarrow> NodeHandle" where
  "shutdown n = n\<lparr>shut_down := True\<rparr>"

text \<open>
  \<^verbatim>\<open>resize(n)\<close> of a joint array and of a \<^verbatim>\<open>std::vector\<close>: the first \<open>n\<close> elements
  are kept and new elements are value-initialised. \<^verbatim>\<open>Jacobian::resize(n)\<close> sets the
  number of columns of a matrix of six rows.
\<close>

definition resize :: "nat \<Rightarrow> 'a \<Rightarrow> 'a list \<Rightarrow> 'a list" where
  "resize n fill xs = take n xs @ replicate (n - length xs) fill"

definition JntArrayVel_resize :: "nat \<Rightarrow> 'a::zero JntArrayVel \<Rightarrow> 'a JntArrayVel" where
  "JntArrayVel_resize n a = a\<lparr>q := resize n 0 (q a), qdot := resize n 0 (qdot a)\<rparr>"

definition Jacobian_resize :: "nat \<Rightarrow> 'a Matrix \<Rightarrow> 'a Matrix" where
  "Jacobian_resize n Jm = Jm\<lparr>rows := 6, cols := n\<rparr>"

text \<open>
  Lines 105 to 109: one handle is appended for every segment from the iterator on.
\<close>

fun get_joint_handles ::
  "'a EffortJointInterface \<Rightarrow> Segment list \<Rightarrow> 'a JointHandle list \<Rightarrow> 'a JointHandle list option"
where
  "get_joint_handles robot [] hs = Some hs"
| "get_joint_handles robot (sg # sgs) hs =
     (case robot (joint_name (joint sg)) of
        None \<Rightarrow> None
      | Some h \<Rightarrow> get_joint_handles robot sgs (hs @ [h]))"

text \<open>Lines 113 to 126: the solvers, the sizes and the subscriptions.\<close>

definition init_solvers_and_sizes ::
  "'a::zero Vector \<Rightarrow> 'a OneTaskInverseKinematics \<Rightarrow> 'a OneTaskInverseKinematics" where
  "init_solvers_and_sizes gravity s =
     (let c = kdl_chain s;
          fk = ChainFkSolverPos_recursive c;
          ik_vel = ChainIkSolverVel_pinv c;
          n = getNrOfJoints c
      in s\<lparr>jnt_to_jac_solver := Some (ChainJntToJacSolver c),
           id_solver := Some (ChainDynParam c gravity),
           fk_pos_solver := Some fk,
           ik_vel_solver := Some ik_vel,
           ik_pos_solver := Some (ChainIkSolverPos_NR c fk ik_vel),
           joint_msr_states := JntArrayVel_resize n (joint_msr_states s),
           joint_des_states := JntArrayVel_resize n (joint_des_states s),
           tau_cmd := resize n 0 (tau_cmd s),
           J := Jacobian_resize n (J s),
           PIDs := resize n Pid_default (PIDs s),
           sub_command := Some \<lparr>topic = ''command_configuration'', queue_size = 1,
                                 callback = Callback_command_configuration\<rparr>,
           sub_gains := Some \<lparr>topic = ''set_gains'', queue_size = 1,
                               callback = Callback_set_gains\<rparr>\<rparr>)"

text \<open>
  \<^verbatim>\<open>init\<close> returns \<open>Inr (r, n', s')\<close> when it returns \<open>r\<close>, with \<open>n'\<close> the node handle
  it was given and \<open>s'\<close> the controller afterwards. It returns \<open>Inl e\<close> when it is left
  by an exception of the hardware interface, or when the chain has no segment, where
  the iterator \<^verbatim>\<open>segments.begin()+1\<close> is past the end. The literal \<^verbatim>\<open>9.81\<close> is the
  quotient of 981 and 100. Log messages are not modelled. The function is cut in
  four at lines 40, 80 and 104.
\<close>

definition init_handles ::
  "'a::zero EffortJointInterface \<Rightarrow> NodeHandle \<Rightarrow> 'a Vector \<Rightarrow> 'a OneTaskInverseKinematics
     \<Rightarrow> init_error + (bool \<times> NodeHandle \<times> 'a OneTaskInverseKinematics)" where
  "init_handles robot n gravity s =
     (case segments (kdl_chain s) of
        [] \<Rightarrow> Inl UndefinedBehaviour
      | first # others \<Rightarrow>
          (case get_joint_handles robot others (joint_handles s) of
             None \<Rightarrow> Inl HardwareInterfaceException
           | Some hs \<Rightarrow>
               Inr (True, n, init_solvers_and_sizes gravity (s\<lparr>joint_handles := hs\<rparr>))))"

definition init_chain ::
  "('m, 't) World \<Rightarrow> 'a::zero EffortJointInterface \<Rightarrow> NodeHandle \<Rightarrow> 'a Vector
     \<Rightarrow> string \<Rightarrow> string \<Rightarrow> 't \<Rightarrow> 'a OneTaskInverseKinematics
     \<Rightarrow> init_error + (bool \<times> NodeHandle \<times> 'a OneTaskInverseKinematics)" where
  "init_chain w robot n gravity root_name tip_name kdl_tree s =
     (case getChain w kdl_tree root_name tip_name (kdl_chain s) of
        (found, c) \<Rightarrow>
          (if \<not> found then Inr (False, n, s\<lparr>kdl_chain := c\<rparr>)
           else init_handles robot n gravity (s\<lparr>kdl_chain := c\<rparr>)))"

definition init_model ::
  "('m, 't) World \<Rightarrow> 'a::zero EffortJointInterface \<Rightarrow> NodeHandle \<Rightarrow> 'a Vector
     \<Rightarrow> string \<Rightarrow> string \<Rightarrow> string \<Rightarrow> 'a OneTaskInverseKinematics
     \<Rightarrow> init_error + (bool \<times> NodeHandle \<times> 'a OneTaskInverseKinematics)" where
  "init_model w robot n gravity robot_description root_name tip_name s =
     (if \<not> hasParam w n robot_description then Inr (False, shutdown n, s)
      else
        (let xml_string = (case getParam w n robot_description of None \<Rightarrow> [] | Some v \<Rightarrow> v)
         in if length xml_string = 0 then Inr (False, shutdown n, s)
            else
              (case initString w xml_string of
                 None \<Rightarrow> Inr (False, shutdown n, s)
               | Some model \<Rightarrow>
                   (case treeFromUrdfModel w model of
                      None \<Rightarrow> Inr (False, shutdown n, s)
                    | Some kdl_tree \<Rightarrow>
                        init_chain w robot n gravity root_name tip_name kdl_tree s))))"

definition init ::
  "('m, 't) World \<Rightarrow> 'a::{zero,one,plus,inverse} EffortJointInterface \<Rightarrow> NodeHandle
     \<Rightarrow> 'a OneTaskInverseKinematics
     \<Rightarrow> init_error + (bool \<times> NodeHandle \<times> 'a OneTaskInverseKinematics)" where
  "init w robot n s0 =
     (let s = s0\<lparr>nh := n\<rparr> in
      (case param_search w (namespace n) ''robot_description'' of
         None \<Rightarrow> Inr (False, n, s)
       | Some robot_description \<Rightarrow>
           (case getParam w (nh s) ''root_name'' of
              None \<Rightarrow> Inr (False, n, s)
            | Some root_name \<Rightarrow>
                (case getParam w (nh s) ''tip_name'' of
                   None \<Rightarrow> Inr (False, n, s)
                 | Some tip_name \<Rightarrow>
                     (case Vector_set Vector_Zero 2 (double_of_nat 981 / double_of_nat 100) of
                        None \<Rightarrow> Inl UndefinedBehaviour
                      | Some gravity \<Rightarrow>
                          init_model w robot n gravity robot_description root_name tip_name
                            s)))))"

subsection \<open>Consistent sizes\<close>

text \<open>
  The controller has consistent sizes for \<open>N\<close> joints when it holds \<open>N\<close> joint
  handles, its joint arrays, its torque vector and its PID set have \<open>N\<close> elements, its
  Jacobian has six rows and \<open>N\<close> columns, and the two solvers of the control cycle
  exist. \<^verbatim>\<open>update\<close> tests none of this: it trusts \<^verbatim>\<open>init\<close>.
\<close>

definition sized :: "nat \<Rightarrow> 'a OneTaskInverseKinematics \<Rightarrow> bool" where
  "sized N s \<longleftrightarrow>
     length (joint_handles s) = N \<and>
     length (q (joint_msr_states s)) = N \<and> length (qdot (joint_msr_states s)) = N \<and>
     length (q (joint_des_states s)) = N \<and> length (qdot (joint_des_states s)) = N \<and>
     length (tau_cmd s) = N \<and> length (PIDs s) = N \<and>
     rows (J s) = 6 \<and> cols (J s) = N \<and>
     jnt_to_jac_solver s \<noteq> None \<and> fk_pos_solver s \<noteq> None"

text \<open>
  Modelled from the spec: the shapes of the matrices the library writes. The source of
  the pseudo-inverse helper is missing; the spec gives its result the swapped
  dimensions of its argument (an \<open>N\<close> by 6 matrix for the 6 by \<open>N\<close> Jacobian). The
  Jacobian solver fills the Jacobian it is given and keeps its shape.
\<close>

definition shape_preserving :: "'a Library \<Rightarrow> bool" where
  "shape_preserving lib \<longleftrightarrow>
     (\<forall>sv qs Jm. rows (JntToJac lib sv qs Jm) = rows Jm \<and> cols (JntToJac lib sv qs Jm) = cols Jm) \<and>
     (\<forall>Jm Pm. rows (pseudo_inverse lib Jm Pm) = cols Jm \<and> cols (pseudo_inverse lib Jm Pm) = rows Jm)"

text \<open>
  The product of row \<open>i\<close> of an \<open>N\<close> by 6 matrix with a twist, as the specification
  writes it: the sum over the six components \<open>k\<close> of the twist of \<open>P(i,k) * e(k)\<close>, added
  to \<open>0.0\<close> for \<open>k = 0, ..., 5\<close> in this order.
\<close>

fun row_times_twist :: "'a::{zero,plus,times} Matrix \<Rightarrow> 'a Twist \<Rightarrow> nat \<Rightarrow> 'a" where
  "row_times_twist Pm e i =
     (case (vel e, rot e) of
        (Vector v0 v1 v2, Vector r0 r1 r2) \<Rightarrow>
          0 + coeff Pm i 0 * v0 + coeff Pm i 1 * v1 + coeff Pm i 2 * v2
            + coeff Pm i 3 * r0 + coeff Pm i 4 * r1 + coeff Pm i 5 * r2)"

text \<open>
  Two controllers that differ at most in the measured joint velocities: those the
  joint handles report and those stored in the measured joint state.
\<close>

definition forget_velocities ::
  "'a::zero OneTaskInverseKinematics \<Rightarrow> 'a OneTaskInverseKinematics" where
  "forget_velocities s =
     s\<lparr>joint_handles := map (\<lambda>h. h\<lparr>velocity := 0\<rparr>) (joint_handles s),
       joint_msr_states := (joint_msr_states s)
          \<lparr>qdot := map (\<lambda>v. 0) (qdot (joint_msr_states s))\<rparr>\<rparr>"

definition same_but_velocities ::
  "'a::zero OneTaskInverseKinematics \<Rightarrow> 'a OneTaskInverseKinematics \<Rightarrow> bool" where
  "same_but_velocities s t \<longleftrightarrow> forget_velocities s = forget_velocities t"

subsection \<open>The configuration failures of the specification\<close>

text \<open>
  The document \<^verbatim>\<open>init\<close> fetches (\<^verbatim>\<open>xml_string\<close>, lines 43 and 44), where the search
  has found the name of the parameter and the parameter is set.
\<close>

definition document :: "('m, 't) World \<Rightarrow> NodeHandle \<Rightarrow> string option" where
  "document w n =
     (case param_search w (namespace n) ''robot_description'' of
        None \<Rightarrow> None
      | Some robot_description \<Rightarrow>
          if hasParam w n robot_description
          then Some (case getParam w n robot_description of None \<Rightarrow> [] | Some v \<Rightarrow> v)
          else None)"

definition missing_robot_description :: "('m, 't) World \<Rightarrow> NodeHandle \<Rightarrow> bool" where
  "missing_robot_description w n \<longleftrightarrow> document w n = None"

definition missing_root_name :: "('m, 't) World \<Rightarrow> NodeHandle \<Rightarrow> bool" where
  "missing_root_name w n \<longleftrightarrow> getParam w n ''root_name'' = None"

definition missing_tip_name :: "('m, 't) World \<Rightarrow> NodeHandle \<Rightarrow> bool" where
  "missing_tip_name w n \<longleftrightarrow> getParam w n ''tip_name'' = None"

definition empty_document :: "('m, 't) World \<Rightarrow> NodeHandle \<Rightarrow> bool" where
  "empty_document w n \<longleftrightarrow> document w n = Some []"

definition unparsable_document :: "('m, 't) World \<Rightarrow> NodeHandle \<Rightarrow> bool" where
  "unparsable_document w n \<longleftrightarrow>
     (case document w n of None \<Rightarrow> False | Some xml \<Rightarrow> initString w xml = None)"

definition no_chain :: "('m, 't) World \<Rightarrow> NodeHandle \<Rightarrow> Chain \<Rightarrow> bool" where
  "no_chain w n c \<longleftrightarrow>
     (case (document w n, getParam w n ''root_name'', getParam w n ''tip_name'') of
        (Some xml, Some root_name, Some tip_name) \<Rightarrow>
          (case initString w xml of
             None \<Rightarrow> False
           | Some model \<Rightarrow>
               (case treeFromUrdfModel w model of
                  None \<Rightarrow> False
                | Some kdl_tree \<Rightarrow> \<not> fst (getChain w kdl_tree root_name tip_name c)))
      | _ \<Rightarrow> False)"

subsection \<open>A two-joint arm\<close>

text \<open>
  A concrete configuration on which the functions can be evaluated: a chain of a
  fixed base segment and two revolute joints, over the real numbers. The controller
  as its constructor leaves it (line 10) has empty arrays, no handle, no solver and no
  subscription.
\<close>

definition constructed :: "'a::{zero,one} OneTaskInverseKinematics" where
  "constructed =
     \<lparr>nh = \<lparr>namespace = ''/'', shut_down = False\<rparr>,
      kdl_chain = \<lparr>segments = []\<rparr>,
      joint_handles = [],
      joint_msr_states = \<lparr>q = [], qdot = []\<rparr>,
      joint_des_states = \<lparr>q = [], qdot = []\<rparr>,
      tau_cmd = [],
      J = \<lparr>rows = 6, cols = 0, coeff = \<lambda>i k. 0\<rparr>,
      J_pinv = \<lparr>rows = 0, cols = 0, coeff = \<lambda>i k. 0\<rparr>,
      x = \<lparr>M = Rotation_Identity, p = Vector_Zero\<rparr>,
      x_des = \<lparr>M = Rotation_Identity, p = Vector_Zero\<rparr>,
      x_err = \<lparr>vel = Vector_Zero, rot = Vector_Zero\<rparr>,
      PIDs = [],
      jnt_to_jac_solver = None,
      id_solver = None,
      fk_pos_solver = None,
      ik_vel_solver = None,
      ik_pos_solver = None,
      sub_command = None,
      sub_gains = None\<rparr>"

definition demo_segment :: "string \<Rightarrow> string \<Rightarrow> JointType \<Rightarrow> Segment" where
  "demo_segment sn jn jt = \<lparr>segment_name = sn, joint = \<lparr>joint_name = jn, joint_type = jt\<rparr>\<rparr>"

definition demo_chain :: Chain where
  "demo_chain =
     \<lparr>segments = [demo_segment ''base'' ''base_joint'' None_joint,
                  demo_segment ''link_1'' ''a1'' RotZ,
                  demo_segment ''link_2'' ''a2'' RotZ]\<rparr>"

text \<open>The same arm without the fixed segment: the chain starts at the first joint.\<close>

definition bare_chain :: Chain where
  "bare_chain =
     \<lparr>segments = [demo_segment ''link_1'' ''a1'' RotZ,
                  demo_segment ''link_2'' ''a2'' RotZ]\<rparr>"

definition demo_handle :: "string \<Rightarrow> real \<Rightarrow> real JointHandle" where
  "demo_handle jn pos = \<lparr>name = jn, position = pos, velocity = 0, effort = 0, command = 0\<rparr>"

definition demo_robot :: "real EffortJointInterface" where
  "demo_robot = map_of [(''a1'', demo_handle ''a1'' (1/2)), (''a2'', demo_handle ''a2'' (1/4))]"

definition demo_node :: NodeHandle where
  "demo_node = \<lparr>namespace = ''/lwr'', shut_down = False\<rparr>"

text \<open>
  A parameter server that holds the three parameters, a parser that accepts one
  document, and a tree that is the chain \<open>c\<close> from \<open>world\<close> to \<open>link_2\<close>.
\<close>

definition demo_world :: "Chain \<Rightarrow> (unit, Chain) World" where
  "demo_world c =
     \<lparr>param_search = (\<lambda>ns key. if key = ''robot_description''
                                then Some ''/robot_description'' else None),
      getParam = (\<lambda>n. map_of [(''root_name'', ''world''), (''tip_name'', ''link_2''),
                               (''/robot_description'', ''<robot/>'')]),
      hasParam = (\<lambda>n key. key = ''/robot_description''),
      initString = (\<lambda>xml. if xml = ''<robot/>'' then Some () else None),
      treeFromUrdfModel = (\<lambda>m. Some c),
      getChain = (\<lambda>tree root_name tip_name old.
                    if root_name = ''world'' \<and> tip_name = ''link_2'' then (True, tree)
                    else (False, \<lparr>segments = []\<rparr>))\<rparr>"

text \<open>
  Library functions of the right shapes: a Jacobian of zeros and ones, its transpose
  in place of the pseudo-inverse, a forward kinematics that adds the joint positions
  up, a proportional control law.
\<close>

definition demo_lib :: "real Library" where
  "demo_lib =
     \<lparr>JntToJac = (\<lambda>sv qs Jm. Jm\<lparr>coeff := \<lambda>i k. if i = k then 1 else 0\<rparr>),
      JntToCart = (\<lambda>sv qs F. \<lparr>M = Rotation_Identity, p = Vector (sum_list qs) 0 0\<rparr>),
      pseudo_inverse = (\<lambda>Jm Pm. \<lparr>rows = cols Jm, cols = rows Jm, coeff = \<lambda>i k. coeff Jm k i\<rparr>),
      Pid_law = (\<lambda>g e err dt. (p_gain g * err, e\<lparr>p_error := err, cmd := p_gain g * err\<rparr>)),
      toSec = (\<lambda>d. of_int (duration_sec d) + of_int (duration_nsec d) / 1000000000)\<rparr>"

definition demo_time :: Time where
  "demo_time = \<lparr>time_sec = 0, time_nsec = 0\<rparr>"

definition demo_period :: Duration where
  "demo_period = \<lparr>duration_sec = 0, duration_nsec = 10000000\<rparr>"

text \<open>A controller of consistent sizes for the two joints, at rest at the origin.\<close>

definition demo_state :: "real OneTaskInverseKinematics" where
  "demo_state =
     constructed
       \<lparr>kdl_chain := demo_chain,
        joint_handles := [demo_handle ''a1'' (1/2), demo_handle ''a2'' (1/4)],
        joint_msr_states := \<lparr>q = [0, 0], qdot = [0, 0]\<rparr>,
        joint_des_states := \<lparr>q = [0, 0], qdot = [0, 0]\<rparr>,
        tau_cmd := [0, 0],
        J := \<lparr>rows = 6, cols = 2, coeff = \<lambda>i k. 0\<rparr>,
        PIDs := [Pid_default, Pid_default],
        jnt_to_jac_solver := Some (ChainJntToJacSolver demo_chain),
        fk_pos_solver := Some (ChainFkSolverPos_recursive demo_chain)\<rparr>"

text \<open>A rotation by a quarter turn about the third axis.\<close>

definition quarter_turn :: "real Rotation" where
  "quarter_turn = Rotation 0 (- 1) 0  1 0 0  0 0 1"

definition demo_pose :: "real PoseStamped" where
  "demo_pose =
     \<lparr>header = \<lparr>seq = 0, stamp = demo_time, frame_id = ''world''\<rparr>,
      pose = \<lparr>pose_position = \<lparr>point_x = 1, point_y = 2, point_z = 3\<rparr>,
              pose_orientation = \<lparr>quaternion_x = 0, quaternion_y = 0,
                                  quaternion_z = 0, quaternion_w = 1\<rparr>\<rparr>\<rparr>"

text \<open>
  Six environments in which the configuration is wrong, one for each failure of the
  specification: no robot description, no root name, no tip name, an empty document,
  a document the parser refuses, and a root that is not in the tree.
\<close>

definition failing_worlds :: "(unit, Chain) World list" where
  "failing_worlds =
     [(demo_world demo_chain)\<lparr>param_search := \<lambda>ns key. None\<rparr>,
      (demo_world demo_chain)\<lparr>getParam := \<lambda>n. map_of
         [(''tip_name'', ''link_2''), (''/robot_description'', ''<robot/>'')]\<rparr>,
      (demo_world demo_chain)\<lparr>getParam := \<lambda>n. map_of
         [(''root_name'', ''world''), (''/robot_description'', ''<robot/>'')]\<rparr>,
      (demo_world demo_chain)\<lparr>getParam := \<lambda>n. map_of
         [(''root_name'', ''world''), (''tip_name'', ''link_2''),
          (''/robot_description'', [])]\<rparr>,
      (demo_world demo_chain)\<lparr>initString := \<lambda>xml. None\<rparr>,
      (demo_world demo_chain)\<lparr>getParam := \<lambda>n. map_of
         [(''root_name'', ''nowhere''), (''tip_name'', ''link_2''),
          (''/robot_description'', ''<robot/>'')]\<rparr>]"

text \<open>A controller that holds no joint handle, no solver and no subscription.\<close>

definition nothing_created :: "'a OneTaskInverseKinematics \<Rightarrow> bool" where
  "nothing_created s \<longleftrightarrow>
     joint_handles s = [] \<and>
     jnt_to_jac_solver s = None \<and> id_solver s = None \<and> fk_pos_solver s = None \<and>
     ik_vel_solver s = None \<and> ik_pos_solver s = None \<and>
     sub_command s = None \<and> sub_gains s = None"

text \<open>
  The shape of chain the controller is written for: the joint of the first segment is
  fixed, every other joint can move.
\<close>

definition fixed_root_only :: "Chain \<Rightarrow> bool" where
  "fixed_root_only c \<longleftrightarrow>
     (case segments c of
        [] \<Rightarrow> False
      | sg # sgs \<Rightarrow> joint_type (joint sg) = None_joint
                   \<and> list_all (\<lambda>sg'. joint_type (joint sg') \<noteq> None_joint) sgs)"

text \<open>
  A pseudo-inverse in which every joint answers to every component of the error, in
  place of the transpose.
\<close>

definition coupled_lib :: "real Library" where
  "coupled_lib =
     demo_lib\<lparr>pseudo_inverse :=
        \<lambda>Jm Pm. \<lparr>rows = cols Jm, cols = rows Jm, coeff = \<lambda>i k. 1\<rparr>\<rparr>"

text \<open>
  The controller \<^verbatim>\<open>init\<close> leaves when the chain starts at its first movable joint:
  sized for the two joints of the chain, with the handle of the second joint only.
\<close>

definition bare_state :: "real OneTaskInverseKinematics" where
  "bare_state =
     init_solvers_and_sizes (Vector 0 0 (double_of_nat 981 / double_of_nat 100))
       (constructed\<lparr>nh := demo_node, kdl_chain := bare_chain,
                    joint_handles := [demo_handle ''a2'' (1/4)]\<rparr>)"

subsection \<open>An arithmetic with infinities and a not-a-number\<close>

text \<open>
  The real numbers, two infinities and one not-a-number, with the sums, differences
  and products IEEE 754 gives them; rounding and the sign of zero are left out. In this
  arithmetic \<open>a - a = 0\<close> and \<open>a * 0 = 0\<close> hold for the finite values and for no other.
\<close>

datatype xdouble = Finite real | PosInf | NegInf | NaN

instantiation xdouble :: "{zero,one,plus,minus,times}"
begin

definition zero_xdouble :: xdouble where
  "zero_xdouble = Finite 0"

definition one_xdouble :: xdouble where
  "one_xdouble = Finite 1"

fun plus_xdouble :: "xdouble \<Rightarrow> xdouble \<Rightarrow> xdouble" where
  "plus_xdouble NaN b = NaN"
| "plus_xdouble a NaN = NaN"
| "plus_xdouble (Finite a) (Finite b) = Finite (a + b)"
| "plus_xdouble PosInf NegInf = NaN"
| "plus_xdouble NegInf PosInf = NaN"
| "plus_xdouble PosInf b = PosInf"
| "plus_xdouble NegInf b = NegInf"
| "plus_xdouble (Finite a) b = b"

fun minus_xdouble :: "xdouble \<Rightarrow> xdouble \<Rightarrow> xdouble" where
  "minus_xdouble NaN b = NaN"
| "minus_xdouble a NaN = NaN"
| "minus_xdouble (Finite a) (Finite b) = Finite (a - b)"
| "minus_xdouble PosInf PosInf = NaN"
| "minus_xdouble NegInf NegInf = NaN"
| "minus_xdouble PosInf b = PosInf"
| "minus_xdouble NegInf b = NegInf"
| "minus_xdouble (Finite a) PosInf = NegInf"
| "minus_xdouble (Finite a) NegInf = PosInf"

fun times_xdouble :: "xdouble \<Rightarrow> xdouble \<Rightarrow> xdouble" where
  "times_xdouble NaN b = NaN"
| "times_xdouble a NaN = NaN"
| "times_xdouble (Finite a) (Finite b) = Finite (a * b)"
| "times_xdouble (Finite a) PosInf = (if a = 0 then NaN else if 0 < a then PosInf else NegInf)"
| "times_xdouble (Finite a) NegInf = (if a = 0 then NaN else if 0 < a then NegInf else PosInf)"
| "times_xdouble PosInf (Finite b) = (if b = 0 then NaN else if 0 < b then PosInf else NegInf)"
| "times_xdouble NegInf (Finite b) = (if b = 0 then NaN else if 0 < b then NegInf else PosInf)"
| "times_xdouble PosInf PosInf = PosInf"
| "times_xdouble PosInf NegInf = NegInf"
| "times_xdouble NegInf PosInf = NegInf"
| "times_xdouble NegInf NegInf = PosInf"

instance ..

end




text \<open>A quarter turn about the first axis.\<close>

definition quarter_turn_x :: "real Rotation" where
  "quarter_turn_x = Rotation 1 0 0  0 0 (- 1)  0 1 0"

section \<open>Properties\<close>

subsection \<open>Loops\<close>

lemma for_loop_append:
  "for_loop (xs @ ys) body s =
     (case for_loop xs body s of None \<Rightarrow> None | Some t \<Rightarrow> for_loop ys body t)"
  by (induction xs arbitrary: s) (auto split: option.splits)

text \<open>A property every iteration keeps holds after the loop.\<close>

lemma for_loop_preserves:
  assumes "for_loop js body s = Some s'" and "P s"
    and "\<And>i t t'. P t \<Longrightarrow> body i t = Some t' \<Longrightarrow> P t'"
  shows "P s'"
  using assms by (induction js arbitrary: s) (auto split: option.splits)

text \<open>A loop whose iterates are known: \<open>g k\<close> is the state after \<open>k\<close> iterations.\<close>

lemma for_loop_upt_result:
  assumes step: "\<And>k. k < n \<Longrightarrow> body k (g k) = Some (g (Suc k))"
  shows "for_loop [0..<n] body (g 0) = Some (g n)"
proof -
  have "m \<le> n \<Longrightarrow> for_loop [0..<m] body (g 0) = Some (g m)" for m
    by (induction m) (simp_all add: for_loop_append step)
  then show ?thesis by simp
qed

lemma upt_6: "[0..<6] = [0, 1, 2, 3, 4, 5]"
  by (simp add: upt_rec)

text \<open>
  An array of which the first \<open>k\<close> elements have been written: writing element \<open>k\<close>
  extends the written part by one.
\<close>

lemma prefix_update_same:
  "k < length qs \<Longrightarrow>
     (map F [0..<k] @ drop k qs)[k := F k] = map F [0..<Suc k] @ drop (Suc k) qs"
  by (simp add: list_update_append Cons_nth_drop_Suc[symmetric])

lemma prefix_update:
  assumes "k < length qs" and "v = F k"
  shows "(map F [0..<k] @ drop k qs)[k := v] = map F [0..<Suc k] @ drop (Suc k) qs"
  unfolding assms(2) by (rule prefix_update_same[OF assms(1)])

lemma prefix_nth: "k < length qs \<Longrightarrow> (map F [0..<k] @ drop k qs) ! k = qs ! k"
  by (simp add: nth_append)

lemma map_nth_upt: "map (\<lambda>j. f (xs ! j)) [0..<length xs] = map f xs"
  by (rule nth_equalityI) simp_all

subsection \<open>What each step of the cycle may change\<close>

lemma get_joint_positions_frame:
  "get_joint_positions i s = Some s' \<Longrightarrow> \<exists>m. s' = s\<lparr>joint_msr_states := m\<rparr>"
  by (auto simp: get_joint_positions_def split: bind_splits)

lemma computing_Jacobian_frame:
  "computing_Jacobian lib s = Some s' \<Longrightarrow> \<exists>m. s' = s\<lparr>J := m\<rparr>"
  by (auto simp: computing_Jacobian_def split: option.splits)

lemma computing_forward_kinematics_frame:
  "computing_forward_kinematics lib s = Some s' \<Longrightarrow> \<exists>m. s' = s\<lparr>x := m\<rparr>"
  by (auto simp: computing_forward_kinematics_def split: option.splits)

lemma end_effector_displacement_rot:
  "end_effector_displacement s = Some s' \<Longrightarrow> rot (x_err s') = Vector 0 0 0"
  by (cases "rot (x_err s)")
     (auto simp: end_effector_displacement_def zero_rot_def upt_rec split: bind_splits)

lemma end_effector_displacement_frame:
  "end_effector_displacement s = Some s' \<Longrightarrow> \<exists>e. s' = s\<lparr>x_err := e\<rparr>"
  by (cases "rot (x_err s)")
     (auto simp: end_effector_displacement_def zero_rot_def upt_rec split: bind_splits)

lemma q_dot_add_frame:
  "q_dot_add i k s = Some s' \<Longrightarrow> \<exists>d. s' = s\<lparr>joint_des_states := d\<rparr>"
  by (auto simp: q_dot_add_def split: bind_splits)

lemma computing_q_dot_frame:
  assumes "computing_q_dot i s = Some s'"
  shows "\<exists>d. s' = s\<lparr>joint_des_states := d\<rparr>"
proof -
  from assms obtain qds where
    loop: "for_loop [0..<cols (J_pinv s)] (q_dot_add i)
             (s\<lparr>joint_des_states := (joint_des_states s)\<lparr>qdot := qds\<rparr>\<rparr>) = Some s'"
    by (auto simp: computing_q_dot_def split: bind_splits)
  have "\<exists>d. s' = s\<lparr>joint_des_states := d\<rparr>"
    by (rule for_loop_preserves[OF loop, where P = "\<lambda>t. \<exists>d. t = s\<lparr>joint_des_states := d\<rparr>"])
       (auto dest!: q_dot_add_frame)
  then show ?thesis .
qed

lemma integrating_q_dot_frame:
  "integrating_q_dot lib period i s = Some s' \<Longrightarrow> \<exists>d. s' = s\<lparr>joint_des_states := d\<rparr>"
  by (auto simp: integrating_q_dot_def split: bind_splits)

lemma set_controls_for_joints_frame:
  "set_controls_for_joints lib period i s = Some s' \<Longrightarrow>
     \<exists>ps ts hs. s' = s\<lparr>PIDs := ps, tau_cmd := ts, joint_handles := hs\<rparr> \<and>
        map gains ps = map gains (PIDs s)"
  by (auto simp: set_controls_for_joints_def computeCommand_def elem_get_def map_update
           list_update_same_conv split: bind_splits prod.splits if_splits intro!: exI)

text \<open>No step of the cycle writes the target pose or the gains of a PID controller.\<close>

lemma update_keeps_target_and_gains:
  assumes "update lib time period s = Some s'"
  shows "x_des s' = x_des s" and "map gains (PIDs s') = map gains (PIDs s)"
proof -
  let ?P = "\<lambda>t. x_des t = x_des s \<and> map gains (PIDs t) = map gains (PIDs s)"
  from assms obtain s1 s2 s3 s4 s5 s6 where
    1: "for_loop [0..<length (joint_handles s)] get_joint_positions s = Some s1" and
    2: "computing_Jacobian lib s1 = Some s2" and
    3: "computing_forward_kinematics lib (computing_J_pinv lib s2) = Some s3" and
    4: "end_effector_displacement s3 = Some s4" and
    5: "for_loop [0..<rows (J_pinv s4)] computing_q_dot s4 = Some s5" and
    6: "for_loop [0..<length (joint_handles s5)] (integrating_q_dot lib period) s5 = Some s6" and
    7: "for_loop [0..<length (joint_handles s6)] (set_controls_for_joints lib period) s6 = Some s'"
    by (auto simp: update_def split: bind_splits)
  have "?P s1"
    by (rule for_loop_preserves[OF 1, where P = ?P]) (auto dest!: get_joint_positions_frame)
  with 2 have "?P s2" by (auto dest!: computing_Jacobian_frame)
  with 3 have "?P s3"
    by (auto dest!: computing_forward_kinematics_frame simp: computing_J_pinv_def)
  with 4 have "?P s4" by (auto dest!: end_effector_displacement_frame)
  then have "?P s5"
    by (rule for_loop_preserves[OF 5, where P = ?P]) (auto dest!: computing_q_dot_frame)
  then have "?P s6"
    by (rule for_loop_preserves[OF 6, where P = ?P]) (auto dest!: integrating_q_dot_frame)
  then have "?P s'"
    by (rule for_loop_preserves[OF 7, where P = ?P]) (auto dest!: set_controls_for_joints_frame)
  then show "x_des s' = x_des s" and "map gains (PIDs s') = map gains (PIDs s)" by simp_all
qed

subsection \<open>The cycle on a controller of consistent sizes\<close>

lemma get_joint_positions_loop:
  assumes "length (joint_handles s) = N" "length (q (joint_msr_states s)) = N"
    "length (qdot (joint_msr_states s)) = N"
  shows "for_loop [0..<N] get_joint_positions s =
    Some (s\<lparr>joint_msr_states := (joint_msr_states s)
       \<lparr>q := map position (joint_handles s), qdot := map velocity (joint_handles s)\<rparr>\<rparr>)"
proof -
  define g where "g k = s\<lparr>joint_msr_states := (joint_msr_states s)
       \<lparr>q := map (\<lambda>j. position (joint_handles s ! j)) [0..<k] @ drop k (q (joint_msr_states s)),
        qdot := map (\<lambda>j. velocity (joint_handles s ! j)) [0..<k] @ drop k (qdot (joint_msr_states s))\<rparr>\<rparr>"
    for k
  have "for_loop [0..<N] get_joint_positions (g 0) = Some (g N)"
  proof (rule for_loop_upt_result)
    fix k assume "k < N"
    with assms show "get_joint_positions k (g k) = Some (g (Suc k))"
      by (simp add: g_def get_joint_positions_def elem_get_def elem_set_def prefix_update
               del: upt_Suc)
  qed
  moreover have "g 0 = s" by (simp add: g_def)
  moreover have "g N = s\<lparr>joint_msr_states := (joint_msr_states s)
       \<lparr>q := map position (joint_handles s), qdot := map velocity (joint_handles s)\<rparr>\<rparr>"
    using assms map_nth_upt[of position "joint_handles s"] map_nth_upt[of velocity "joint_handles s"]
    by (simp add: g_def)
  ultimately show ?thesis by simp
qed

lemma q_dot_add_loop:
  assumes "i < length (qdot (joint_des_states s))" "cols (J_pinv s) = 6"
    "qdot (joint_des_states s) ! i = 0"
  shows "for_loop [0..<cols (J_pinv s)] (q_dot_add i) s =
    Some (s\<lparr>joint_des_states := (joint_des_states s)
       \<lparr>qdot := (qdot (joint_des_states s))[i := row_times_twist (J_pinv s) (x_err s) i]\<rparr>\<rparr>)"
  using assms
  by (cases "vel (x_err s)"; cases "rot (x_err s)")
     (simp add: upt_6 q_dot_add_def Twist_get_def elem_get_def elem_set_def)

lemma computing_q_dot_result:
  assumes "i < length (qdot (joint_des_states s))" "cols (J_pinv s) = 6"
  shows "computing_q_dot i s =
    Some (s\<lparr>joint_des_states := (joint_des_states s)
       \<lparr>qdot := (qdot (joint_des_states s))[i := row_times_twist (J_pinv s) (x_err s) i]\<rparr>\<rparr>)"
proof -
  let ?t = "s\<lparr>joint_des_states := (joint_des_states s)
       \<lparr>qdot := (qdot (joint_des_states s))[i := 0]\<rparr>\<rparr>"
  have "for_loop [0..<cols (J_pinv ?t)] (q_dot_add i) ?t =
    Some (?t\<lparr>joint_des_states := (joint_des_states ?t)
       \<lparr>qdot := (qdot (joint_des_states ?t))[i := row_times_twist (J_pinv ?t) (x_err ?t) i]\<rparr>\<rparr>)"
    by (rule q_dot_add_loop) (use assms in simp_all)
  with assms show ?thesis
    by (simp add: computing_q_dot_def elem_set_def)
qed

lemma computing_q_dot_loop:
  assumes "length (qdot (joint_des_states s)) = N" "cols (J_pinv s) = 6"
  shows "for_loop [0..<N] computing_q_dot s =
    Some (s\<lparr>joint_des_states := (joint_des_states s)
       \<lparr>qdot := map (row_times_twist (J_pinv s) (x_err s)) [0..<N]\<rparr>\<rparr>)"
proof -
  define g where "g k = s\<lparr>joint_des_states := (joint_des_states s)
       \<lparr>qdot := map (row_times_twist (J_pinv s) (x_err s)) [0..<k]
                 @ drop k (qdot (joint_des_states s))\<rparr>\<rparr>" for k
  have "for_loop [0..<N] computing_q_dot (g 0) = Some (g N)"
  proof (rule for_loop_upt_result)
    fix k assume "k < N"
    with assms show "computing_q_dot k (g k) = Some (g (Suc k))"
      by (subst computing_q_dot_result)
         (simp_all add: g_def prefix_update del: upt_Suc row_times_twist.simps)
  qed
  moreover have "g 0 = s" by (simp add: g_def)
  ultimately show ?thesis using assms by (simp add: g_def)
qed

lemma integrating_q_dot_loop:
  assumes "length (q (joint_des_states s)) = N" "length (qdot (joint_des_states s)) = N"
  shows "for_loop [0..<N] (integrating_q_dot lib period) s =
    Some (s\<lparr>joint_des_states := (joint_des_states s)
       \<lparr>q := map (\<lambda>i. q (joint_des_states s) ! i
                     + toSec lib period * qdot (joint_des_states s) ! i) [0..<N]\<rparr>\<rparr>)"
proof -
  define g where "g k = s\<lparr>joint_des_states := (joint_des_states s)
       \<lparr>q := map (\<lambda>i. q (joint_des_states s) ! i
                     + toSec lib period * qdot (joint_des_states s) ! i) [0..<k]
              @ drop k (q (joint_des_states s))\<rparr>\<rparr>" for k
  have "for_loop [0..<N] (integrating_q_dot lib period) (g 0) = Some (g N)"
  proof (rule for_loop_upt_result)
    fix k assume "k < N"
    with assms show "integrating_q_dot lib period k (g k) = Some (g (Suc k))"
      by (simp add: g_def integrating_q_dot_def elem_get_def elem_set_def prefix_update
            prefix_nth del: upt_Suc)
  qed
  moreover have "g 0 = s" by (simp add: g_def)
  ultimately show ?thesis using assms by (simp add: g_def)
qed

lemma set_controls_for_joints_loop:
  assumes "length (joint_handles s) = N" "length (q (joint_des_states s)) = N"
    "length (q (joint_msr_states s)) = N" "length (PIDs s) = N" "length (tau_cmd s) = N"
  shows "for_loop [0..<N] (set_controls_for_joints lib period) s =
    Some (s\<lparr>PIDs := map (\<lambda>i. snd (computeCommand lib (PIDs s ! i)
                  (q (joint_des_states s) ! i - q (joint_msr_states s) ! i) period)) [0..<N],
            tau_cmd := map (\<lambda>i. fst (computeCommand lib (PIDs s ! i)
                  (q (joint_des_states s) ! i - q (joint_msr_states s) ! i) period)) [0..<N],
            joint_handles := map (\<lambda>i. setCommand (fst (computeCommand lib (PIDs s ! i)
                  (q (joint_des_states s) ! i - q (joint_msr_states s) ! i) period))
                  (joint_handles s ! i)) [0..<N]\<rparr>)"
proof -
  let ?c = "\<lambda>i. computeCommand lib (PIDs s ! i)
                  (q (joint_des_states s) ! i - q (joint_msr_states s) ! i) period"
  define g where "g k = s\<lparr>PIDs := map (\<lambda>i. snd (?c i)) [0..<k] @ drop k (PIDs s),
            tau_cmd := map (\<lambda>i. fst (?c i)) [0..<k] @ drop k (tau_cmd s),
            joint_handles := map (\<lambda>i. setCommand (fst (?c i)) (joint_handles s ! i)) [0..<k]
               @ drop k (joint_handles s)\<rparr>" for k
  have "for_loop [0..<N] (set_controls_for_joints lib period) (g 0) = Some (g N)"
  proof (rule for_loop_upt_result)
    fix k assume "k < N"
    with assms show "set_controls_for_joints lib period k (g k) = Some (g (Suc k))"
      by (simp add: g_def set_controls_for_joints_def elem_get_def elem_set_def prefix_update
            prefix_nth split_beta del: upt_Suc)
  qed
  moreover have "g 0 = s" by (simp add: g_def)
  ultimately show ?thesis using assms by (simp add: g_def)
qed

lemma end_effector_displacement_result:
  "end_effector_displacement s =
     Some (s\<lparr>x_err := \<lparr>vel = Vector_minus (p (x_des s)) (p (x s)), rot = Vector 0 0 0\<rparr>\<rparr>)"
  by (cases "rot (x_err s)")
     (simp add: end_effector_displacement_def zero_rot_def upt_rec)

lemma update_sized:
  assumes sz: "sized N s" and sh: "shape_preserving lib"
  obtains s' svj svf where
    "update lib time period s = Some s'"
    "jnt_to_jac_solver s = Some svj" "fk_pos_solver s = Some svf"
    "joint_msr_states s' = (joint_msr_states s)
        \<lparr>q := map position (joint_handles s), qdot := map velocity (joint_handles s)\<rparr>"
    "J s' = JntToJac lib svj (map position (joint_handles s)) (J s)"
    "J_pinv s' = pseudo_inverse lib (J s') (J_pinv s)"
    "x s' = JntToCart lib svf (map position (joint_handles s)) (x s)"
    "x_err s' = \<lparr>vel = Vector_minus (p (x_des s)) (p (x s')), rot = Vector 0 0 0\<rparr>"
    "qdot (joint_des_states s') = map (row_times_twist (J_pinv s') (x_err s')) [0..<N]"
    "q (joint_des_states s') =
       map (\<lambda>i. q (joint_des_states s) ! i + toSec lib period * qdot (joint_des_states s') ! i)
         [0..<N]"
    "tau_cmd s' = map (\<lambda>i. fst (computeCommand lib (PIDs s ! i)
        (q (joint_des_states s') ! i - q (joint_msr_states s') ! i) period)) [0..<N]"
    "map command (joint_handles s') = tau_cmd s'"
    "sized N s'"
proof -
  from sz obtain svj svf where sv: "jnt_to_jac_solver s = Some svj" "fk_pos_solver s = Some svf"
    by (auto simp: sized_def)
  from sz have len: "length (joint_handles s) = N" "length (q (joint_msr_states s)) = N"
    "length (qdot (joint_msr_states s)) = N" "length (q (joint_des_states s)) = N"
    "length (qdot (joint_des_states s)) = N" "length (tau_cmd s) = N" "length (PIDs s) = N"
    "rows (J s) = 6" "cols (J s) = N"
    by (simp_all add: sized_def)
  define qn where "qn = map position (joint_handles s)"
  define m1 where "m1 = (joint_msr_states s)\<lparr>q := qn, qdot := map velocity (joint_handles s)\<rparr>"
  define Jn where "Jn = JntToJac lib svj qn (J s)"
  define Pn where "Pn = pseudo_inverse lib Jn (J_pinv s)"
  define xn where "xn = JntToCart lib svf qn (x s)"
  define en where "en = \<lparr>vel = Vector_minus (p (x_des s)) (p xn), rot = Vector 0 0 0\<rparr>"
  define vd where "vd = map (row_times_twist Pn en) [0..<N]"
  define qd where "qd = map (\<lambda>i. q (joint_des_states s) ! i + toSec lib period * vd ! i) [0..<N]"
  define cc where "cc i = computeCommand lib (PIDs s ! i) (qd ! i - qn ! i) period" for i
  define s1 where "s1 = s\<lparr>joint_msr_states := m1\<rparr>"
  define s2 where "s2 = s\<lparr>joint_msr_states := m1, J := Jn\<rparr>"
  define s3 where "s3 = s\<lparr>joint_msr_states := m1, J := Jn, J_pinv := Pn, x := xn\<rparr>"
  define s4 where "s4 = s\<lparr>joint_msr_states := m1, J := Jn, J_pinv := Pn, x := xn, x_err := en\<rparr>"
  define s5 where "s5 = s\<lparr>joint_msr_states := m1, J := Jn, J_pinv := Pn, x := xn, x_err := en,
     joint_des_states := (joint_des_states s)\<lparr>qdot := vd\<rparr>\<rparr>"
  define s6 where "s6 = s\<lparr>joint_msr_states := m1, J := Jn, J_pinv := Pn, x := xn, x_err := en,
     joint_des_states := (joint_des_states s)\<lparr>qdot := vd, q := qd\<rparr>\<rparr>"
  define s7 where "s7 = s\<lparr>joint_msr_states := m1, J := Jn, J_pinv := Pn, x := xn, x_err := en,
     joint_des_states := (joint_des_states s)\<lparr>qdot := vd, q := qd\<rparr>,
     PIDs := map (\<lambda>i. snd (cc i)) [0..<N],
     tau_cmd := map (\<lambda>i. fst (cc i)) [0..<N],
     joint_handles := map (\<lambda>i. setCommand (fst (cc i)) (joint_handles s ! i)) [0..<N]\<rparr>"
  have lqn: "length qn = N" "length vd = N" "length qd = N"
    by (simp_all add: qn_def vd_def qd_def len)
  have shape: "rows Pn = N" "cols Pn = 6"
    using sh len by (simp_all add: shape_preserving_def Pn_def Jn_def)
  have 1: "for_loop [0..<length (joint_handles s)] get_joint_positions s = Some s1"
    unfolding s1_def m1_def qn_def using len by (simp add: get_joint_positions_loop)
  have 2: "computing_Jacobian lib s1 = Some s2"
    by (simp add: computing_Jacobian_def s2_def s1_def sv Jn_def m1_def)
  have 3: "computing_forward_kinematics lib (computing_J_pinv lib s2) = Some s3"
    by (simp add: computing_forward_kinematics_def computing_J_pinv_def s3_def s2_def sv
          Pn_def xn_def m1_def)
  have 4: "end_effector_displacement s3 = Some s4"
    by (simp add: end_effector_displacement_result s4_def s3_def en_def)
  have "for_loop [0..<N] computing_q_dot s4 =
     Some (s4\<lparr>joint_des_states := (joint_des_states s4)
       \<lparr>qdot := map (row_times_twist (J_pinv s4) (x_err s4)) [0..<N]\<rparr>\<rparr>)"
    by (rule computing_q_dot_loop) (simp_all add: s4_def len shape)
  then have 5: "for_loop [0..<rows (J_pinv s4)] computing_q_dot s4 = Some s5"
    by (simp add: s4_def s5_def vd_def shape del: row_times_twist.simps)
  have "for_loop [0..<N] (integrating_q_dot lib period) s5 =
    Some (s5\<lparr>joint_des_states := (joint_des_states s5)
       \<lparr>q := map (\<lambda>i. q (joint_des_states s5) ! i
                     + toSec lib period * qdot (joint_des_states s5) ! i) [0..<N]\<rparr>\<rparr>)"
    by (rule integrating_q_dot_loop) (simp_all add: s5_def len lqn)
  then have 6: "for_loop [0..<length (joint_handles s5)] (integrating_q_dot lib period) s5 = Some s6"
    by (simp add: s5_def s6_def qd_def len)
  have "for_loop [0..<N] (set_controls_for_joints lib period) s6 =
    Some (s6\<lparr>PIDs := map (\<lambda>i. snd (computeCommand lib (PIDs s6 ! i)
                  (q (joint_des_states s6) ! i - q (joint_msr_states s6) ! i) period)) [0..<N],
            tau_cmd := map (\<lambda>i. fst (computeCommand lib (PIDs s6 ! i)
                  (q (joint_des_states s6) ! i - q (joint_msr_states s6) ! i) period)) [0..<N],
            joint_handles := map (\<lambda>i. setCommand (fst (computeCommand lib (PIDs s6 ! i)
                  (q (joint_des_states s6) ! i - q (joint_msr_states s6) ! i) period))
                  (joint_handles s6 ! i)) [0..<N]\<rparr>)"
    by (rule set_controls_for_joints_loop) (simp_all add: s6_def len lqn m1_def)
  then have 7: "for_loop [0..<length (joint_handles s6)] (set_controls_for_joints lib period) s6 = Some s7"
    by (simp add: s6_def s7_def cc_def len m1_def)
  have upd: "update lib time period s = Some s7"
    by (simp add: update_def 1 2 3 4 5 6 7)
  show thesis
  proof (rule that[OF upd sv])
    show "joint_msr_states s7 = (joint_msr_states s)
        \<lparr>q := map position (joint_handles s), qdot := map velocity (joint_handles s)\<rparr>"
      by (simp add: s7_def m1_def qn_def)
    show "J s7 = JntToJac lib svj (map position (joint_handles s)) (J s)"
      by (simp add: s7_def Jn_def qn_def)
    show "J_pinv s7 = pseudo_inverse lib (J s7) (J_pinv s)"
      by (simp add: s7_def Pn_def)
    show "x s7 = JntToCart lib svf (map position (joint_handles s)) (x s)"
      by (simp add: s7_def xn_def qn_def)
    show "x_err s7 = \<lparr>vel = Vector_minus (p (x_des s)) (p (x s7)), rot = Vector 0 0 0\<rparr>"
      by (simp add: s7_def en_def)
    show "qdot (joint_des_states s7) = map (row_times_twist (J_pinv s7) (x_err s7)) [0..<N]"
      by (simp add: s7_def vd_def del: row_times_twist.simps)
    show "q (joint_des_states s7) =
       map (\<lambda>i. q (joint_des_states s) ! i + toSec lib period * qdot (joint_des_states s7) ! i)
         [0..<N]"
      by (simp add: s7_def qd_def)
    show "tau_cmd s7 = map (\<lambda>i. fst (computeCommand lib (PIDs s ! i)
        (q (joint_des_states s7) ! i - q (joint_msr_states s7) ! i) period)) [0..<N]"
      by (simp add: s7_def cc_def m1_def)
    show "map command (joint_handles s7) = tau_cmd s7"
      by (simp add: s7_def setCommand_def comp_def)
    show "sized N s7"
      using len sv sh by (simp add: sized_def s7_def lqn m1_def Jn_def shape_preserving_def)
  qed
qed

subsection \<open>The orientation error\<close>

text \<open>
  Claim C7. After \<^verbatim>\<open>update\<close> the angular part of the Cartesian pose error is the zero
  vector, its three components exactly \<open>0.0\<close>, whatever the target orientation, the
  measured orientation and the angular part before the call are: this holds whenever
  \<^verbatim>\<open>update\<close> returns; the step that computes the error (lines 174 to 177) returns on
  every controller, with the angular part zero; and on a controller of consistent
  sizes \<^verbatim>\<open>update\<close> does return.
\<close>

theorem update_angular_error_zero:
  "(\<forall>s'. update lib time period s = Some s' \<longrightarrow> rot (x_err s') = Vector 0 0 0) \<and>
   (\<exists>t. end_effector_displacement s = Some t \<and> rot (x_err t) = Vector 0 0 0) \<and>
   (sized N s \<and> shape_preserving lib \<longrightarrow>
      (\<exists>s'. update lib time period s = Some s' \<and> rot (x_err s') = Vector 0 0 0))"
proof (intro conjI allI impI)
  fix s' assume u: "update lib time period s = Some s'"
  let ?P = "\<lambda>t. rot (x_err t) = Vector 0 0 0"
  from u obtain s3 s4 s5 s6 where
    4: "end_effector_displacement s3 = Some s4" and
    5: "for_loop [0..<rows (J_pinv s4)] computing_q_dot s4 = Some s5" and
    6: "for_loop [0..<length (joint_handles s5)] (integrating_q_dot lib period) s5 = Some s6" and
    7: "for_loop [0..<length (joint_handles s6)] (set_controls_for_joints lib period) s6 = Some s'"
    by (auto simp: update_def split: bind_splits)
  from 4 have "?P s4" by (rule end_effector_displacement_rot)
  then have "?P s5"
    by (rule for_loop_preserves[OF 5, where P = ?P]) (auto dest!: computing_q_dot_frame)
  then have "?P s6"
    by (rule for_loop_preserves[OF 6, where P = ?P]) (auto dest!: integrating_q_dot_frame)
  then show "?P s'"
    by (rule for_loop_preserves[OF 7, where P = ?P]) (auto dest!: set_controls_for_joints_frame)
next
  show "\<exists>t. end_effector_displacement s = Some t \<and> rot (x_err t) = Vector 0 0 0"
    by (simp add: end_effector_displacement_result)
next
  assume "sized N s \<and> shape_preserving lib"
  then have sz: "sized N s" and sh: "shape_preserving lib" by simp_all
  from update_sized[OF sz sh, of time period] obtain s' where
    "update lib time period s = Some s'"
    "x_err s' = \<lparr>vel = Vector_minus (p (x_des s)) (p (x s')), rot = Vector 0 0 0\<rparr>"
    by blast
  then show "\<exists>s'. update lib time period s = Some s' \<and> rot (x_err s') = Vector 0 0 0"
    by simp
qed

lemma sized_demo_state: "sized 2 demo_state"
  by (simp add: sized_def demo_state_def constructed_def)

lemma shape_preserving_demo_lib: "shape_preserving demo_lib"
  by (simp add: shape_preserving_def demo_lib_def)

lemma update_demo_returns: "\<exists>s'. update demo_lib demo_time demo_period demo_state = Some s'"
  by (rule update_sized[OF sized_demo_state shape_preserving_demo_lib, of demo_time demo_period])
     (rule exI)

theorem update_angular_error_zero_witness:
  "\<exists>s'. rot (x_err (demo_state\<lparr>x_err := \<lparr>vel = Vector 1 1 1, rot = Vector 2 3 4\<rparr>,
                                 x_des := \<lparr>M = quarter_turn, p = Vector 1 2 3\<rparr>\<rparr>))
          = Vector 2 3 4 \<and>
        update (demo_lib\<lparr>JntToCart := \<lambda>sv qs F. \<lparr>M = quarter_turn_x,
                                                     p = Vector (sum_list qs) 0 0\<rparr>\<rparr>)
          demo_time demo_period
          (demo_state\<lparr>x_err := \<lparr>vel = Vector 1 1 1, rot = Vector 2 3 4\<rparr>,
                      x_des := \<lparr>M = quarter_turn, p = Vector 1 2 3\<rparr>\<rparr>) = Some s' \<and>
        M (x_des s') = quarter_turn \<and> M (x s') = quarter_turn_x \<and>
        rot (x_err s') = Vector 0 0 0"
proof -
  let ?s = "demo_state\<lparr>x_err := \<lparr>vel = Vector 1 1 1, rot = Vector 2 3 4\<rparr>,
                      x_des := \<lparr>M = quarter_turn, p = Vector 1 2 3\<rparr>\<rparr>"
  let ?lib = "demo_lib\<lparr>JntToCart := \<lambda>sv qs F. \<lparr>M = quarter_turn_x,
                                                  p = Vector (sum_list qs) 0 0\<rparr>\<rparr>"
  have sz: "sized 2 ?s" using sized_demo_state by (simp add: sized_def)
  have sh: "shape_preserving ?lib" by (simp add: shape_preserving_def demo_lib_def)
  from update_angular_error_zero[of ?lib demo_time demo_period ?s 2] sz sh
  obtain s' where u: "update ?lib demo_time demo_period ?s = Some s'"
    and r: "rot (x_err s') = Vector 0 0 0"
    by blast
  from update_sized[OF sz sh, of demo_time demo_period] u
  have "\<exists>svf. x s' = JntToCart ?lib svf (map position (joint_handles ?s)) (x ?s)"
    by auto
  then have "M (x s') = quarter_turn_x" by auto
  moreover have "M (x_des s') = quarter_turn"
    using update_keeps_target_and_gains(1)[OF u] by simp
  ultimately show ?thesis using u r by (intro exI[of _ s']) simp
qed

subsection \<open>The desired joint velocity and its integration\<close>

text \<open>
  On a controller of consistent sizes for \<open>N\<close> joints, with library functions of the
  shapes the specification gives them, \<^verbatim>\<open>update\<close> returns, and afterwards: the
  pseudo-inverse is the one the helper computed from the Jacobian, an \<open>N\<close> by 6 matrix;
  for every joint \<open>i\<close> the desired joint velocity is the sum over the six components \<open>k\<close>
  of the pose error of \<open>J_pinv(i,k) * x_err(k)\<close>; and the desired joint position is its
  previous value plus the elapsed seconds times that velocity.
\<close>

lemma update_velocity_and_integration:
  assumes "sized N s" and "shape_preserving lib"
  shows "\<exists>s'. update lib time period s = Some s' \<and>
           J_pinv s' = pseudo_inverse lib (J s') (J_pinv s) \<and>
           rows (J_pinv s') = N \<and> cols (J_pinv s') = 6 \<and>
           length (qdot (joint_des_states s')) = N \<and>
           length (q (joint_des_states s')) = N \<and>
           (\<forall>i<N. qdot (joint_des_states s') ! i
                     = row_times_twist (J_pinv s') (x_err s') i \<and>
                   q (joint_des_states s') ! i
                     = q (joint_des_states s) ! i
                       + toSec lib period * qdot (joint_des_states s') ! i)"
proof -
  from update_sized[OF assms, of time period] obtain s' svj svf where
    u: "update lib time period s = Some s'" and
    Jn: "J s' = JntToJac lib svj (map position (joint_handles s)) (J s)" and
    Pn: "J_pinv s' = pseudo_inverse lib (J s') (J_pinv s)" and
    vd: "qdot (joint_des_states s') = map (row_times_twist (J_pinv s') (x_err s')) [0..<N]" and
    qd: "q (joint_des_states s') =
       map (\<lambda>i. q (joint_des_states s) ! i + toSec lib period * qdot (joint_des_states s') ! i)
         [0..<N]"
    by blast
  from assms have shape: "rows (J_pinv s') = N" "cols (J_pinv s') = 6"
    by (simp_all add: Pn Jn shape_preserving_def sized_def)
  have "\<forall>i<N. qdot (joint_des_states s') ! i = row_times_twist (J_pinv s') (x_err s') i"
    by (subst vd) (simp del: row_times_twist.simps)
  moreover have "\<forall>i<N. q (joint_des_states s') ! i
       = q (joint_des_states s) ! i + toSec lib period * qdot (joint_des_states s') ! i"
    by (subst qd) simp
  moreover have "length (qdot (joint_des_states s')) = N" by (subst vd) simp
  moreover have "length (q (joint_des_states s')) = N" by (subst qd) simp
  ultimately show ?thesis using u Pn shape by blast
qed

lemma update_velocity_and_integration_demo:
  "\<exists>s'. update demo_lib demo_time demo_period demo_state = Some s' \<and>
        qdot (joint_des_states s') = [- 3 / 4, 0] \<and>
        q (joint_des_states s') = [- 3 / 400, 0]"
proof -
  from update_velocity_and_integration[OF sized_demo_state shape_preserving_demo_lib,
      of demo_time demo_period]
  obtain s' where u: "update demo_lib demo_time demo_period demo_state = Some s'"
    and l: "length (qdot (joint_des_states s')) = 2" "length (q (joint_des_states s')) = 2"
    and v: "\<forall>i<2. qdot (joint_des_states s') ! i
                     = row_times_twist (J_pinv s') (x_err s') i \<and>
                   q (joint_des_states s') ! i
                     = q (joint_des_states demo_state) ! i
                       + toSec demo_lib demo_period * qdot (joint_des_states s') ! i"
    by blast
  from update_sized[OF sized_demo_state shape_preserving_demo_lib, of demo_time demo_period]
  obtain s'' svj svf where u'': "update demo_lib demo_time demo_period demo_state = Some s''"
    and J'': "J s'' = JntToJac demo_lib svj (map position (joint_handles demo_state)) (J demo_state)"
    and P'': "J_pinv s'' = pseudo_inverse demo_lib (J s'') (J_pinv demo_state)"
    and x'': "x s'' = JntToCart demo_lib svf (map position (joint_handles demo_state)) (x demo_state)"
    and e'': "x_err s'' = \<lparr>vel = Vector_minus (p (x_des demo_state)) (p (x s'')), rot = Vector 0 0 0\<rparr>"
    by blast
  from u u'' have same: "s'' = s'" by simp
  note J = J''[unfolded same] and P = P''[unfolded same] and x = x''[unfolded same]
    and e = e''[unfolded same]
  have c: "coeff (J_pinv s') i k = (if k = i then 1 else 0)" for i k
    by (simp add: P J demo_lib_def)
  have "p (x s') = Vector (3 / 4) 0 0"
    by (simp add: x demo_lib_def demo_state_def demo_handle_def)
  then have xe: "x_err s' = \<lparr>vel = Vector (- 3 / 4) 0 0, rot = Vector 0 0 0\<rparr>"
    by (simp add: e demo_state_def constructed_def Vector_Zero_def)
  from v have vv: "qdot (joint_des_states s') ! i = row_times_twist (J_pinv s') (x_err s') i"
    if "i < 2" for i using that by blast
  from v have vq: "q (joint_des_states s') ! i = q (joint_des_states demo_state) ! i
                       + toSec demo_lib demo_period * qdot (joint_des_states s') ! i"
    if "i < 2" for i using that by blast
  have v0: "qdot (joint_des_states s') ! 0 = - 3 / 4" "qdot (joint_des_states s') ! Suc 0 = 0"
    by (simp_all add: vv c xe)
  have q0: "q (joint_des_states s') ! 0 = - 3 / 400" "q (joint_des_states s') ! Suc 0 = 0"
    by (simp_all add: vq v0 demo_state_def demo_lib_def demo_period_def)
  have "qdot (joint_des_states s') = [- 3 / 4, 0]"
    using l(1) v0 by (intro nth_equalityI) (auto simp: less_Suc_eq numeral_2_eq_2)
  moreover have "q (joint_des_states s') = [- 3 / 400, 0]"
    using l(2) q0 by (intro nth_equalityI) (auto simp: less_Suc_eq numeral_2_eq_2)
  ultimately show ?thesis using u by blast
qed

subsection \<open>The message handlers\<close>

text \<open>
  Claim C3, as the code has it. The handler replaces the whole target pose by the
  frame built from the position of the message: the position of the target becomes
  the position of the message, its orientation becomes the identity rotation, whatever
  it was before and whatever the orientation of the message is; nothing else changes.
\<close>

theorem command_configuration_replaces_target:
  "command_configuration msg s =
     s\<lparr>x_des := \<lparr>M = Rotation_Identity,
                  p = Vector (point_x (pose_position (pose msg)))
                             (point_y (pose_position (pose msg)))
                             (point_z (pose_position (pose msg)))\<rparr>\<rparr>"
  by (simp add: command_configuration_def Frame_of_Vector_def)

text \<open>
  Claim C3, as it is stated, fails: a target turned by a quarter turn has lost its
  orientation after a message.
\<close>

theorem command_configuration_orientation_counterexample:
  "M (x_des (command_configuration demo_pose
        (demo_state\<lparr>x_des := \<lparr>M = quarter_turn, p = Vector 0 0 0\<rparr>\<rparr>)))
     \<noteq> M (x_des (demo_state\<lparr>x_des := \<lparr>M = quarter_turn, p = Vector 0 0 0\<rparr>\<rparr>))"
  by (simp add: command_configuration_def Frame_of_Vector_def Rotation_Identity_def
        quarter_turn_def)

lemma set_gains_pid_loop:
  assumes "length (data msg) = 2 * length (PIDs s)"
  shows "for_loop [0..<length (PIDs s)] (set_gains_pid msg) s =
    Some (s\<lparr>PIDs := map (\<lambda>i. setGains (data msg ! i) (data msg ! (i + length (PIDs s))) 0 0 0
                            (PIDs s ! i)) [0..<length (PIDs s)]\<rparr>)"
proof -
  define g where "g k = s\<lparr>PIDs := map (\<lambda>i. setGains (data msg ! i)
       (data msg ! (i + length (PIDs s))) 0 0 0 (PIDs s ! i)) [0..<k] @ drop k (PIDs s)\<rparr>" for k
  have "for_loop [0..<length (PIDs s)] (set_gains_pid msg) (g 0) = Some (g (length (PIDs s)))"
  proof (rule for_loop_upt_result)
    fix k assume "k < length (PIDs s)"
    with assms show "set_gains_pid msg k (g k) = Some (g (Suc k))"
      by (simp add: g_def set_gains_pid_def elem_get_def prefix_update prefix_nth del: upt_Suc)
  qed
  moreover have "g 0 = s" by (simp add: g_def)
  ultimately show ?thesis by (simp add: g_def)
qed

text \<open>
  Claim C4. A gains message of length \<open>2 * N\<close>, for \<open>N\<close> PID controllers, gives every
  controller \<open>i\<close> the proportional gain \<open>data[i]\<close>, the integral gain \<open>data[N + i]\<close>, the
  derivative gain 0 and the bounds 0; the handler returns, and it changes nothing but
  the gains. A message of any other length changes nothing at all.
\<close>

theorem set_gains_all_or_nothing:
  "(length (data msg) = 2 * length (PIDs s) \<longrightarrow>
      (\<exists>s'. set_gains msg s = Some s' \<and>
            s' = s\<lparr>PIDs := PIDs s'\<rparr> \<and>
            length (PIDs s') = length (PIDs s) \<and>
            (\<forall>i<length (PIDs s).
               gains (PIDs s' ! i) =
                 \<lparr>p_gain = data msg ! i, i_gain = data msg ! (length (PIDs s) + i),
                  d_gain = 0, i_max = 0, i_min = 0\<rparr> \<and>
               errors (PIDs s' ! i) = errors (PIDs s ! i)))) \<and>
   (length (data msg) \<noteq> 2 * length (PIDs s) \<longrightarrow> set_gains msg s = Some s)"
proof (intro conjI impI)
  assume len: "length (data msg) = 2 * length (PIDs s)"
  let ?s' = "s\<lparr>PIDs := map (\<lambda>i. setGains (data msg ! i) (data msg ! (i + length (PIDs s))) 0 0 0
                            (PIDs s ! i)) [0..<length (PIDs s)]\<rparr>"
  have "set_gains msg s = Some ?s'"
    using len by (simp add: set_gains_def set_gains_pid_loop)
  moreover have "?s' = s\<lparr>PIDs := PIDs ?s'\<rparr>" by simp
  moreover have "length (PIDs ?s') = length (PIDs s)" by simp
  moreover have "\<forall>i<length (PIDs s).
               gains (PIDs ?s' ! i) =
                 \<lparr>p_gain = data msg ! i, i_gain = data msg ! (length (PIDs s) + i),
                  d_gain = 0, i_max = 0, i_min = 0\<rparr> \<and>
               errors (PIDs ?s' ! i) = errors (PIDs s ! i)"
    by (simp add: setGains_def add.commute)
  ultimately show "\<exists>s'. set_gains msg s = Some s' \<and>
            s' = s\<lparr>PIDs := PIDs s'\<rparr> \<and>
            length (PIDs s') = length (PIDs s) \<and>
            (\<forall>i<length (PIDs s).
               gains (PIDs s' ! i) =
                 \<lparr>p_gain = data msg ! i, i_gain = data msg ! (length (PIDs s) + i),
                  d_gain = 0, i_max = 0, i_min = 0\<rparr> \<and>
               errors (PIDs s' ! i) = errors (PIDs s ! i))"
    by blast
next
  assume "length (data msg) \<noteq> 2 * length (PIDs s)"
  then show "set_gains msg s = Some s" by (simp add: set_gains_def)
qed

theorem set_gains_all_or_nothing_witness:
  "(\<exists>s'. set_gains \<lparr>data = [10, 20, 1, 2]\<rparr> demo_state = Some s' \<and>
         map gains (PIDs s') =
           [\<lparr>p_gain = 10, i_gain = 1, d_gain = 0, i_max = 0, i_min = 0\<rparr>,
            \<lparr>p_gain = 20, i_gain = 2, d_gain = 0, i_max = 0, i_min = 0\<rparr>]) \<and>
   set_gains \<lparr>data = [10, 20, 1]\<rparr> demo_state = Some demo_state"
proof -
  have N: "length (PIDs demo_state) = 2"
    by (simp add: demo_state_def)
  have "length (data \<lparr>data = [10, 20, 1, 2::real]\<rparr>) = 2 * length (PIDs demo_state)"
    by (simp add: N)
  with set_gains_all_or_nothing[of "\<lparr>data = [10, 20, 1, 2]\<rparr>" demo_state]
  obtain s' where s': "set_gains \<lparr>data = [10, 20, 1, 2]\<rparr> demo_state = Some s'"
    and l: "length (PIDs s') = 2"
    and g: "\<forall>i<2. gains (PIDs s' ! i) =
                 \<lparr>p_gain = [10, 20, 1, 2] ! i, i_gain = [10, 20, 1, 2] ! (2 + i),
                  d_gain = 0, i_max = 0, i_min = 0\<rparr> \<and>
               errors (PIDs s' ! i) = errors (PIDs demo_state ! i)"
    unfolding N by fastforce
  from g have "gains (PIDs s' ! 0) = \<lparr>p_gain = 10, i_gain = 1, d_gain = 0, i_max = 0, i_min = 0\<rparr>"
    "gains (PIDs s' ! Suc 0) = \<lparr>p_gain = 20, i_gain = 2, d_gain = 0, i_max = 0, i_min = 0\<rparr>"
    by (simp_all add: numeral_2_eq_2)
  with l have "map gains (PIDs s') =
           [\<lparr>p_gain = 10, i_gain = 1, d_gain = 0, i_max = 0, i_min = 0\<rparr>,
            \<lparr>p_gain = 20, i_gain = 2, d_gain = 0, i_max = 0, i_min = 0\<rparr>]"
    by (intro nth_equalityI) (auto simp: less_Suc_eq numeral_2_eq_2)
  moreover from set_gains_all_or_nothing[of "\<lparr>data = [10, 20, 1]\<rparr>" demo_state]
  have "set_gains \<lparr>data = [10, 20, 1]\<rparr> demo_state = Some demo_state"
    by (simp add: N)
  ultimately show ?thesis using s' by simp
qed

subsection \<open>Initialisation\<close>

text \<open>One handle is appended for every segment, in the order of the segments.\<close>

lemma get_joint_handles_length:
  "get_joint_handles robot sgs hs = Some hs' \<Longrightarrow> length hs' = length hs + length sgs"
  by (induction sgs arbitrary: hs) (auto split: option.splits)

lemma get_joint_handles_names:
  "get_joint_handles robot sgs hs = Some hs' \<Longrightarrow>
     \<exists>new. hs' = hs @ new \<and> map Some new = map (\<lambda>sg. robot (joint_name (joint sg))) sgs"
proof (induction sgs arbitrary: hs)
  case Nil
  then show ?case by simp
next
  case (Cons sg sgs)
  then obtain h where h: "robot (joint_name (joint sg)) = Some h"
    and rest: "get_joint_handles robot sgs (hs @ [h]) = Some hs'"
    by (auto split: option.splits)
  from Cons.IH[OF rest] obtain new where "hs' = (hs @ [h]) @ new"
    "map Some new = map (\<lambda>sg. robot (joint_name (joint sg))) sgs" by blast
  with h show ?case by (intro exI[of _ "h # new"]) simp
qed

text \<open>
  The two ways \<^verbatim>\<open>init\<close> returns: with \<open>false\<close>, having written at most the node
  handle and the chain; with \<open>true\<close>, from a chain of at least one segment, with a handle
  for every segment but the first.
\<close>

lemma init_returns:
  assumes "init w robot n s = Inr (r, n', s')"
  shows "(\<not> r \<and> s' = s\<lparr>nh := n, kdl_chain := kdl_chain s'\<rparr>) \<or>
         (r \<and> n' = n \<and> segments (kdl_chain s') \<noteq> [] \<and>
          get_joint_handles robot (tl (segments (kdl_chain s'))) (joint_handles s)
            = Some (joint_handles s') \<and>
          s' = init_solvers_and_sizes (Vector 0 0 (double_of_nat 981 / double_of_nat 100))
                 (s\<lparr>nh := n, kdl_chain := kdl_chain s', joint_handles := joint_handles s'\<rparr>))"
  using assms
  unfolding init_def init_model_def init_chain_def init_handles_def Let_def
  by (auto simp: Vector_Zero_def init_solvers_and_sizes_def Let_def
        split: option.splits if_splits prod.splits list.splits)

text \<open>
  Claim C5. In each of the six configuration failures \<^verbatim>\<open>init\<close> returns \<open>false\<close>; and
  whenever it returns \<open>false\<close> it has written nothing but its copy of the node handle
  and the chain: the joint handles, the five solvers and the two subscriptions are
  what they were before the call, none for a controller just constructed.
\<close>

theorem init_fails_closed:
  assumes "missing_robot_description w n \<or> missing_root_name w n \<or> missing_tip_name w n \<or>
           empty_document w n \<or> unparsable_document w n \<or> no_chain w n (kdl_chain s)"
  shows "(\<exists>n' s'. init w robot n s = Inr (False, n', s')) \<and>
         (\<forall>n' s'. init w robot n s = Inr (False, n', s') \<longrightarrow>
            s' = s\<lparr>nh := n, kdl_chain := kdl_chain s'\<rparr> \<and>
            joint_handles s' = joint_handles s \<and>
            jnt_to_jac_solver s' = jnt_to_jac_solver s \<and> id_solver s' = id_solver s \<and>
            fk_pos_solver s' = fk_pos_solver s \<and> ik_vel_solver s' = ik_vel_solver s \<and>
            ik_pos_solver s' = ik_pos_solver s \<and>
            sub_command s' = sub_command s \<and> sub_gains s' = sub_gains s \<and>
            (nothing_created s \<longrightarrow> nothing_created s'))"
proof
  from assms show "\<exists>n' s'. init w robot n s = Inr (False, n', s')"
    unfolding missing_robot_description_def missing_root_name_def missing_tip_name_def
      empty_document_def unparsable_document_def no_chain_def document_def
      init_def init_model_def init_chain_def Let_def
    by (auto simp: Vector_Zero_def split: option.splits if_splits prod.splits)
next
  show "\<forall>n' s'. init w robot n s = Inr (False, n', s') \<longrightarrow>
            s' = s\<lparr>nh := n, kdl_chain := kdl_chain s'\<rparr> \<and>
            joint_handles s' = joint_handles s \<and>
            jnt_to_jac_solver s' = jnt_to_jac_solver s \<and> id_solver s' = id_solver s \<and>
            fk_pos_solver s' = fk_pos_solver s \<and> ik_vel_solver s' = ik_vel_solver s \<and>
            ik_pos_solver s' = ik_pos_solver s \<and>
            sub_command s' = sub_command s \<and> sub_gains s' = sub_gains s \<and>
            (nothing_created s \<longrightarrow> nothing_created s')"
  proof (intro allI impI)
    fix n' s' assume "init w robot n s = Inr (False, n', s')"
    from init_returns[OF this] have eq: "s' = s\<lparr>nh := n, kdl_chain := kdl_chain s'\<rparr>" by simp
    have "joint_handles s' = joint_handles s" "jnt_to_jac_solver s' = jnt_to_jac_solver s"
      "id_solver s' = id_solver s" "fk_pos_solver s' = fk_pos_solver s"
      "ik_vel_solver s' = ik_vel_solver s" "ik_pos_solver s' = ik_pos_solver s"
      "sub_command s' = sub_command s" "sub_gains s' = sub_gains s"
      by (subst eq, simp)+
    then show "s' = s\<lparr>nh := n, kdl_chain := kdl_chain s'\<rparr> \<and>
            joint_handles s' = joint_handles s \<and>
            jnt_to_jac_solver s' = jnt_to_jac_solver s \<and> id_solver s' = id_solver s \<and>
            fk_pos_solver s' = fk_pos_solver s \<and> ik_vel_solver s' = ik_vel_solver s \<and>
            ik_pos_solver s' = ik_pos_solver s \<and>
            sub_command s' = sub_command s \<and> sub_gains s' = sub_gains s \<and>
            (nothing_created s \<longrightarrow> nothing_created s')"
      using eq by (simp add: nothing_created_def)
  qed
qed

theorem init_fails_closed_witness:
  "list_all (\<lambda>w. \<exists>n' s'. init w demo_robot demo_node constructed = Inr (False, n', s')
                          \<and> nothing_created s')
     failing_worlds"
proof -
  have nc: "nothing_created (constructed :: real OneTaskInverseKinematics)"
    by (simp add: nothing_created_def constructed_def)
  have *: "\<exists>n' s'. init w demo_robot demo_node constructed = Inr (False, n', s')
                   \<and> nothing_created s'"
    if "missing_robot_description w demo_node \<or> missing_root_name w demo_node \<or>
        missing_tip_name w demo_node \<or> empty_document w demo_node \<or>
        unparsable_document w demo_node \<or>
        no_chain w demo_node (kdl_chain (constructed :: real OneTaskInverseKinematics))"
    for w :: "(unit, Chain) World"
    using init_fails_closed[OF that, of demo_robot] nc by blast
  show ?thesis
    unfolding failing_worlds_def list.pred_inject
    by (intro conjI * TrueI)
       (simp_all add: missing_robot_description_def missing_root_name_def
          missing_tip_name_def empty_document_def unparsable_document_def no_chain_def
          document_def demo_world_def demo_node_def)
qed

text \<open>
  What a successful initialisation establishes. With a chain of \<open>N\<close> movable joints, the
  measured and the desired joint state, the torque vector and the PID set have exactly
  \<open>N\<close> elements and the Jacobian has six rows and \<open>N\<close> columns. The joint handles are
  those held before and one more for every segment of the chain but the first. They
  are exactly \<open>N\<close>, and the controller has consistent sizes, when the controller held
  no handle before and the chain has a fixed joint in its first segment and a movable
  joint in every other one.
\<close>

lemma init_sizes:
  assumes "init w robot n s = Inr (True, n', s')"
  shows "length (q (joint_msr_states s')) = getNrOfJoints (kdl_chain s') \<and>
         length (qdot (joint_msr_states s')) = getNrOfJoints (kdl_chain s') \<and>
         length (q (joint_des_states s')) = getNrOfJoints (kdl_chain s') \<and>
         length (qdot (joint_des_states s')) = getNrOfJoints (kdl_chain s') \<and>
         length (tau_cmd s') = getNrOfJoints (kdl_chain s') \<and>
         rows (J s') = 6 \<and> cols (J s') = getNrOfJoints (kdl_chain s') \<and>
         length (PIDs s') = getNrOfJoints (kdl_chain s') \<and>
         length (joint_handles s')
           = length (joint_handles s) + (getNrOfSegments (kdl_chain s') - 1) \<and>
         (\<exists>new. joint_handles s' = joint_handles s @ new \<and>
                map Some new = map (\<lambda>sg. robot (joint_name (joint sg)))
                                 (tl (segments (kdl_chain s')))) \<and>
         (joint_handles s = [] \<and> fixed_root_only (kdl_chain s') \<longrightarrow>
            length (joint_handles s') = getNrOfJoints (kdl_chain s') \<and>
            sized (getNrOfJoints (kdl_chain s')) s')"
proof -
  let ?c = "kdl_chain s'" and ?N = "getNrOfJoints (kdl_chain s')"
  from init_returns[OF assms] have
    ne: "segments ?c \<noteq> []" and
    hs: "get_joint_handles robot (tl (segments ?c)) (joint_handles s) = Some (joint_handles s')" and
    eq: "s' = init_solvers_and_sizes (Vector 0 0 (double_of_nat 981 / double_of_nat 100))
                 (s\<lparr>nh := n, kdl_chain := ?c, joint_handles := joint_handles s'\<rparr>)"
    by simp_all
  have sizes: "length (q (joint_msr_states s')) = ?N" "length (qdot (joint_msr_states s')) = ?N"
    "length (q (joint_des_states s')) = ?N" "length (qdot (joint_des_states s')) = ?N"
    "length (tau_cmd s') = ?N" "rows (J s') = 6" "cols (J s') = ?N" "length (PIDs s') = ?N"
    "jnt_to_jac_solver s' \<noteq> None" "fk_pos_solver s' \<noteq> None"
    by (subst eq,
        simp add: init_solvers_and_sizes_def Let_def JntArrayVel_resize_def resize_def
          Jacobian_resize_def)+
  from get_joint_handles_length[OF hs] have
    len: "length (joint_handles s') = length (joint_handles s) + (getNrOfSegments ?c - 1)"
    by (simp add: getNrOfSegments_def)
  have conv: "length (joint_handles s') = ?N"
    if "joint_handles s = []" "fixed_root_only ?c"
  proof -
    from that(2) obtain sg sgs where c: "segments ?c = sg # sgs"
      "joint_type (joint sg) = None_joint"
      "list_all (\<lambda>sg'. joint_type (joint sg') \<noteq> None_joint) sgs"
      by (auto simp: fixed_root_only_def split: list.splits)
    from c(3) have "filter (\<lambda>sg'. joint_type (joint sg') \<noteq> None_joint) sgs = sgs"
      by (simp add: list_all_iff)
    with c have "?N = length sgs" by (simp add: getNrOfJoints_def)
    with len that(1) c(1) show ?thesis by (simp add: getNrOfSegments_def)
  qed
  from sizes len get_joint_handles_names[OF hs] conv show ?thesis
    by (simp add: sized_def)
qed

lemma init_demo:
  "\<exists>s'. init (demo_world c) demo_robot demo_node (constructed :: real OneTaskInverseKinematics)
          = Inr (True, demo_node, s') \<and> kdl_chain s' = c"
  if "c = demo_chain \<or> c = bare_chain"
  using that
  by (auto simp: init_def init_model_def init_chain_def init_handles_def Let_def
        demo_world_def demo_node_def demo_chain_def bare_chain_def demo_segment_def
        demo_robot_def Vector_Zero_def init_solvers_and_sizes_def constructed_def)

lemma init_sizes_demo:
  "\<exists>s'. init (demo_world demo_chain) demo_robot demo_node constructed
           = Inr (True, demo_node, s') \<and>
        length (joint_handles s') = 2 \<and> sized 2 (s' :: real OneTaskInverseKinematics)"
proof -
  from init_demo[of demo_chain] obtain s' :: "real OneTaskInverseKinematics" where
    i: "init (demo_world demo_chain) demo_robot demo_node constructed = Inr (True, demo_node, s')"
    and c: "kdl_chain s' = demo_chain" by auto
  have N: "getNrOfJoints demo_chain = 2"
    by (simp add: getNrOfJoints_def demo_chain_def demo_segment_def)
  have "joint_handles (constructed :: real OneTaskInverseKinematics) = []"
    by (simp add: constructed_def)
  moreover have "fixed_root_only demo_chain"
    by (simp add: fixed_root_only_def demo_chain_def demo_segment_def)
  ultimately show ?thesis using init_sizes[OF i] i by (simp add: c N)
qed

lemma init_bare:
  "init (demo_world bare_chain) demo_robot demo_node constructed
     = Inr (True, demo_node, bare_state)"
  by (simp add: init_def init_model_def init_chain_def init_handles_def Let_def
        demo_world_def demo_node_def bare_chain_def demo_segment_def
        demo_robot_def Vector_Zero_def constructed_def bare_state_def)

lemma bare_state_fields:
  "joint_handles bare_state = [demo_handle ''a2'' (1/4)]"
  "joint_msr_states bare_state = \<lparr>q = [0, 0], qdot = [0, 0]\<rparr>"
  "joint_des_states bare_state = \<lparr>q = [0, 0], qdot = [0, 0]\<rparr>"
  "tau_cmd bare_state = [0, 0]"
  "PIDs bare_state = [Pid_default, Pid_default]"
  "rows (J bare_state) = 6" "cols (J bare_state) = 2"
  "jnt_to_jac_solver bare_state = Some (ChainJntToJacSolver bare_chain)"
  "fk_pos_solver bare_state = Some (ChainFkSolverPos_recursive bare_chain)"
  "x bare_state = \<lparr>M = Rotation_Identity, p = Vector 0 0 0\<rparr>"
  "J_pinv bare_state = \<lparr>rows = 0, cols = 0, coeff = \<lambda>i k. 0\<rparr>"
  "x_err bare_state = \<lparr>vel = Vector 0 0 0, rot = Vector 0 0 0\<rparr>"
  by (simp_all add: bare_state_def init_solvers_and_sizes_def Let_def constructed_def
        getNrOfJoints_def bare_chain_def demo_segment_def JntArrayVel_resize_def resize_def
        Jacobian_resize_def Vector_Zero_def numeral_2_eq_2)

text \<open>
  Claim C6 fails on a chain that starts at its first movable joint. The chain has two
  movable joints, \<^verbatim>\<open>init\<close> returns \<open>true\<close>, and every array and the PID set have two
  elements; but one joint handle is held, that of the second joint: the loop of line
  105 starts at the second segment, against its comment (line 104), which takes a
  handle for every joint of the chain.
\<close>

theorem init_misses_first_joint:
  "\<exists>s'. init (demo_world bare_chain) demo_robot demo_node constructed
           = Inr (True, demo_node, s') \<and>
        map (joint_name \<circ> joint) (segments (kdl_chain s')) = [''a1'', ''a2''] \<and>
        getNrOfJoints (kdl_chain s') = 2 \<and>
        length (q (joint_msr_states s')) = 2 \<and> length (q (joint_des_states s')) = 2 \<and>
        length (tau_cmd s') = 2 \<and> cols (J s') = 2 \<and> length (PIDs s') = 2 \<and>
        map name (joint_handles (s' :: real OneTaskInverseKinematics)) = [''a2'']"
proof -
  have "kdl_chain bare_state = bare_chain"
    by (simp add: bare_state_def init_solvers_and_sizes_def Let_def)
  then have "map (joint_name \<circ> joint) (segments (kdl_chain bare_state)) = [''a1'', ''a2'']"
    "getNrOfJoints (kdl_chain bare_state) = 2"
    by (simp_all add: bare_chain_def demo_segment_def getNrOfJoints_def)
  then show ?thesis
    using init_bare
    by (intro exI[of _ bare_state]) (simp add: bare_state_fields demo_handle_def)
qed

subsection \<open>Who writes the target pose and the gains\<close>

lemma set_gains_pid_frame:
  "set_gains_pid msg i s = Some s' \<Longrightarrow> \<exists>ps. s' = s\<lparr>PIDs := ps\<rparr>"
  by (auto simp: set_gains_pid_def split: bind_splits)

lemma set_gains_frame:
  assumes "set_gains msg s = Some s'"
  shows "x_des s' = x_des s"
proof (cases "length (data msg) = 2 * length (PIDs s)")
  case True
  with assms have loop: "for_loop [0..<length (PIDs s)] (set_gains_pid msg) s = Some s'"
    by (simp add: set_gains_def)
  show ?thesis
    by (rule for_loop_preserves[OF loop, where P = "\<lambda>t. x_des t = x_des s"])
       (auto dest!: set_gains_pid_frame)
next
  case False
  with assms show ?thesis by (simp add: set_gains_def)
qed

lemma resize_nth: "i < length xs \<Longrightarrow> i < n \<Longrightarrow> resize n v xs ! i = xs ! i"
  by (simp add: resize_def nth_append)

text \<open>
  Claim C10. A call to \<^verbatim>\<open>update\<close> that returns leaves the Cartesian target pose and
  the gains of every PID controller as they were. Of the other member functions, the
  pose handler does not touch the PID controllers, the gains handler does not touch
  the target pose, and \<^verbatim>\<open>init\<close> touches neither the target pose nor the gains of a
  controller that stays in the PID set; \<^verbatim>\<open>starting\<close> writes both.
\<close>

theorem update_leaves_target_and_gains:
  "(\<forall>s'. update lib time period s = Some s' \<longrightarrow>
          x_des s' = x_des s \<and> map gains (PIDs s') = map gains (PIDs s)) \<and>
   PIDs (command_configuration pmsg s) = PIDs s \<and>
   (\<forall>s'. set_gains gmsg s = Some s' \<longrightarrow> x_des s' = x_des s) \<and>
   (\<forall>r n' s'. init w robot n s = Inr (r, n', s') \<longrightarrow>
          x_des s' = x_des s \<and>
          (\<forall>i<length (PIDs s). i < length (PIDs s') \<longrightarrow>
              gains (PIDs s' ! i) = gains (PIDs s ! i)))"
proof (intro conjI allI impI)
  fix s' assume u: "update lib time period s = Some s'"
  from update_keeps_target_and_gains[OF u]
  show "x_des s' = x_des s" "map gains (PIDs s') = map gains (PIDs s)" by simp_all
next
  show "PIDs (command_configuration pmsg s) = PIDs s"
    by (simp add: command_configuration_def)
next
  fix s' assume "set_gains gmsg s = Some s'"
  then show "x_des s' = x_des s" by (rule set_gains_frame)
next
  fix r n' s' assume i: "init w robot n s = Inr (r, n', s')"
  from init_returns[OF i] show "x_des s' = x_des s"
  proof (elim disjE conjE)
    assume "s' = s\<lparr>nh := n, kdl_chain := kdl_chain s'\<rparr>"
    then have "x_des s' = x_des (s\<lparr>nh := n, kdl_chain := kdl_chain s'\<rparr>)" by simp
    then show ?thesis by simp
  next
    assume "s' = init_solvers_and_sizes (Vector 0 0 (double_of_nat 981 / double_of_nat 100))
                 (s\<lparr>nh := n, kdl_chain := kdl_chain s', joint_handles := joint_handles s'\<rparr>)"
    then have "x_des s' = x_des (init_solvers_and_sizes
                 (Vector 0 0 (double_of_nat 981 / double_of_nat 100))
                 (s\<lparr>nh := n, kdl_chain := kdl_chain s', joint_handles := joint_handles s'\<rparr>))"
      by simp
    then show ?thesis by (simp add: init_solvers_and_sizes_def Let_def)
  qed
  fix k assume k: "k < length (PIDs s)" "k < length (PIDs s')"
  from init_returns[OF i] show "gains (PIDs s' ! k) = gains (PIDs s ! k)"
  proof (elim disjE conjE)
    assume "s' = s\<lparr>nh := n, kdl_chain := kdl_chain s'\<rparr>"
    then have "PIDs s' = PIDs (s\<lparr>nh := n, kdl_chain := kdl_chain s'\<rparr>)" by simp
    then show ?thesis by simp
  next
    assume "s' = init_solvers_and_sizes (Vector 0 0 (double_of_nat 981 / double_of_nat 100))
                 (s\<lparr>nh := n, kdl_chain := kdl_chain s', joint_handles := joint_handles s'\<rparr>)"
    then have "PIDs s' = PIDs (init_solvers_and_sizes
                 (Vector 0 0 (double_of_nat 981 / double_of_nat 100))
                 (s\<lparr>nh := n, kdl_chain := kdl_chain s', joint_handles := joint_handles s'\<rparr>))"
      by simp
    then have P: "PIDs s' = resize (getNrOfJoints (kdl_chain s')) Pid_default (PIDs s)"
      by (simp add: init_solvers_and_sizes_def Let_def)
    from k have "k < getNrOfJoints (kdl_chain s')" by (simp add: P resize_def)
    with k show ?thesis by (simp add: P resize_nth)
  qed
qed

theorem update_leaves_target_and_gains_witness:
  "\<exists>s'. update demo_lib demo_time demo_period demo_state = Some s' \<and>
        x_des s' = x_des demo_state \<and> map gains (PIDs s') = map gains (PIDs demo_state)"
  using update_demo_returns
    update_leaves_target_and_gains[of demo_lib demo_time demo_period demo_state]
  by blast

subsection \<open>Activation\<close>

lemma starting_joint_loop:
  assumes "length (joint_handles s) = N" "length (q (joint_msr_states s)) = N"
    "length (qdot (joint_msr_states s)) = N" "length (q (joint_des_states s)) = N"
  shows "for_loop [0..<N] starting_joint s =
    Some (s\<lparr>joint_msr_states := (joint_msr_states s)
              \<lparr>q := map position (joint_handles s), qdot := map velocity (joint_handles s)\<rparr>,
            joint_des_states := (joint_des_states s)\<lparr>q := map position (joint_handles s)\<rparr>\<rparr>)"
proof -
  define g where "g k = s\<lparr>joint_msr_states := (joint_msr_states s)
       \<lparr>q := map (\<lambda>j. position (joint_handles s ! j)) [0..<k] @ drop k (q (joint_msr_states s)),
        qdot := map (\<lambda>j. velocity (joint_handles s ! j)) [0..<k]
                 @ drop k (qdot (joint_msr_states s))\<rparr>,
      joint_des_states := (joint_des_states s)
       \<lparr>q := map (\<lambda>j. position (joint_handles s ! j)) [0..<k]
              @ drop k (q (joint_des_states s))\<rparr>\<rparr>"
    for k
  have "for_loop [0..<N] starting_joint (g 0) = Some (g N)"
  proof (rule for_loop_upt_result)
    fix k assume "k < N"
    with assms show "starting_joint k (g k) = Some (g (Suc k))"
      by (simp add: g_def starting_joint_def elem_get_def elem_set_def prefix_update
               del: upt_Suc)
  qed
  moreover have "g 0 = s" by (simp add: g_def)
  moreover have "g N = s\<lparr>joint_msr_states := (joint_msr_states s)
              \<lparr>q := map position (joint_handles s), qdot := map velocity (joint_handles s)\<rparr>,
            joint_des_states := (joint_des_states s)\<lparr>q := map position (joint_handles s)\<rparr>\<rparr>"
    using assms map_nth_upt[of position "joint_handles s"] map_nth_upt[of velocity "joint_handles s"]
    by (simp add: g_def)
  ultimately show ?thesis by simp
qed

lemma starting_pid_loop:
  "for_loop [0..<length (PIDs s)] starting_pid s =
     Some (s\<lparr>PIDs := map (initPid (double_of_nat 100) 1 0 0 0) (PIDs s)\<rparr>)"
proof -
  define g where "g k = s\<lparr>PIDs := map (\<lambda>j. initPid (double_of_nat 100) 1 0 0 0 (PIDs s ! j)) [0..<k]
       @ drop k (PIDs s)\<rparr>" for k
  have "for_loop [0..<length (PIDs s)] starting_pid (g 0) = Some (g (length (PIDs s)))"
  proof (rule for_loop_upt_result)
    fix k assume "k < length (PIDs s)"
    then show "starting_pid k (g k) = Some (g (Suc k))"
      by (simp add: g_def starting_pid_def elem_get_def prefix_update prefix_nth del: upt_Suc)
  qed
  moreover have "g 0 = s" by (simp add: g_def)
  moreover have "g (length (PIDs s)) =
      s\<lparr>PIDs := map (initPid (double_of_nat 100) 1 0 0 0) (PIDs s)\<rparr>"
    using map_nth_upt[of "initPid (double_of_nat 100) 1 0 0 0" "PIDs s"] by (simp add: g_def)
  ultimately show ?thesis by simp
qed

lemma starting_sized:
  assumes "sized N s" and "fk_pos_solver s = Some svf"
  shows "starting lib time s =
    Some (s\<lparr>joint_msr_states := (joint_msr_states s)
              \<lparr>q := map position (joint_handles s), qdot := map velocity (joint_handles s)\<rparr>,
            joint_des_states := (joint_des_states s)\<lparr>q := map position (joint_handles s)\<rparr>,
            PIDs := map (initPid (double_of_nat 100) 1 0 0 0) (PIDs s),
            x := JntToCart lib svf (map position (joint_handles s)) (x s),
            x_des := JntToCart lib svf (map position (joint_handles s)) (x s)\<rparr>)"
proof -
  define s1 where "s1 = s\<lparr>joint_msr_states := (joint_msr_states s)
              \<lparr>q := map position (joint_handles s), qdot := map velocity (joint_handles s)\<rparr>,
            joint_des_states := (joint_des_states s)\<lparr>q := map position (joint_handles s)\<rparr>\<rparr>"
  define s2 where "s2 = s1\<lparr>PIDs := map (initPid (double_of_nat 100) 1 0 0 0) (PIDs s1)\<rparr>"
  from assms(1) have 1: "for_loop [0..<length (joint_handles s)] starting_joint s = Some s1"
    unfolding s1_def by (simp add: sized_def starting_joint_loop)
  have 2: "for_loop [0..<length (PIDs s1)] starting_pid s1 = Some s2"
    unfolding s2_def by (rule starting_pid_loop)
  have 3: "computing_forward_kinematics lib s2 =
      Some (s2\<lparr>x := JntToCart lib svf (q (joint_msr_states s2)) (x s2)\<rparr>)"
    using assms(2) by (simp add: computing_forward_kinematics_def s2_def s1_def)
  show ?thesis
    by (simp add: starting_def 1 2 3) (simp add: s2_def s1_def)
qed



subsection \<open>The steady state\<close>








subsection \<open>The measured joint velocities\<close>

text \<open>
  Every step of the cycle commutes with forgetting the measured velocities: run on the
  controller without them, it ends where the step on the controller ends, without
  them.
\<close>

lemma for_loop_commute:
  assumes "\<And>i t. body i (f t) = map_option f (body i t)"
  shows "for_loop js body (f s) = map_option f (for_loop js body s)"
  by (induction js arbitrary: s) (auto simp: assms split: option.splits)

lemma forget_get_joint_positions:
  "get_joint_positions i (forget_velocities s) =
     map_option forget_velocities (get_joint_positions i s)"
  by (simp add: get_joint_positions_def forget_velocities_def elem_get_def elem_set_def
        map_update)

lemma forget_computing_Jacobian:
  "computing_Jacobian lib (forget_velocities s) =
     map_option forget_velocities (computing_Jacobian lib s)"
  by (simp add: computing_Jacobian_def forget_velocities_def split: option.splits)

lemma forget_computing_J_pinv:
  "computing_J_pinv lib (forget_velocities s) = forget_velocities (computing_J_pinv lib s)"
  by (simp add: computing_J_pinv_def forget_velocities_def)

lemma forget_computing_forward_kinematics:
  "computing_forward_kinematics lib (forget_velocities s) =
     map_option forget_velocities (computing_forward_kinematics lib s)"
  by (simp add: computing_forward_kinematics_def forget_velocities_def split: option.splits)

lemma forget_zero_rot:
  "zero_rot i (forget_velocities s) = map_option forget_velocities (zero_rot i s)"
  by (cases "Vector_set (rot (x_err s)) i 0") (simp_all add: zero_rot_def forget_velocities_def)

lemma forget_fields:
  "x_err (forget_velocities s) = x_err s"
  "x_des (forget_velocities s) = x_des s"
  "x (forget_velocities s) = x s"
  "J_pinv (forget_velocities s) = J_pinv s"
  "joint_des_states (forget_velocities s) = joint_des_states s"
  "tau_cmd (forget_velocities s) = tau_cmd s"
  "length (joint_handles (forget_velocities s)) = length (joint_handles s)"
  "map command (joint_handles (forget_velocities s)) = map command (joint_handles s)"
  by (simp_all add: forget_velocities_def comp_def)

lemma forget_x_err_update:
  "(forget_velocities s)\<lparr>x_err := e\<rparr> = forget_velocities (s\<lparr>x_err := e\<rparr>)"
  by (simp add: forget_velocities_def)

lemma forget_joint_des_states_update:
  "(forget_velocities s)\<lparr>joint_des_states := d\<rparr> = forget_velocities (s\<lparr>joint_des_states := d\<rparr>)"
  by (simp add: forget_velocities_def)

lemma forget_end_effector_displacement:
  "end_effector_displacement (forget_velocities s) =
     map_option forget_velocities (end_effector_displacement s)"
  by (simp add: end_effector_displacement_def forget_fields forget_x_err_update
        for_loop_commute[where body = zero_rot and f = forget_velocities, OF forget_zero_rot])

lemma forget_q_dot_add:
  "q_dot_add i k (forget_velocities s) = map_option forget_velocities (q_dot_add i k s)"
  by (simp add: q_dot_add_def forget_velocities_def elem_get_def elem_set_def
        split: bind_splits option.splits)


lemma forget_computing_q_dot:
  "computing_q_dot i (forget_velocities s) = map_option forget_velocities (computing_q_dot i s)"
  by (cases "elem_set (qdot (joint_des_states s)) i 0")
     (simp_all add: computing_q_dot_def forget_fields forget_joint_des_states_update
        for_loop_commute[where body = "q_dot_add i" and f = forget_velocities,
          OF forget_q_dot_add])

lemma forget_integrating_q_dot:
  "integrating_q_dot lib period i (forget_velocities s) =
     map_option forget_velocities (integrating_q_dot lib period i s)"
  by (simp add: integrating_q_dot_def forget_velocities_def elem_get_def elem_set_def)

lemma setCommand_forget:
  "setCommand c (h\<lparr>velocity := 0\<rparr>) = (setCommand c h)\<lparr>velocity := 0\<rparr>"
  by (cases h) (simp add: setCommand_def)

lemma forget_controls_update:
  "(forget_velocities s)\<lparr>PIDs := ps, tau_cmd := ts,
       joint_handles := map (\<lambda>h. h\<lparr>velocity := 0\<rparr>) hs\<rparr>
     = forget_velocities (s\<lparr>PIDs := ps, tau_cmd := ts, joint_handles := hs\<rparr>)"
  by (simp add: forget_velocities_def)

lemma set_controls_for_joints_eq:
  "set_controls_for_joints lib period i s =
     (if i < length (q (joint_des_states s)) \<and> i < length (q (joint_msr_states s)) \<and>
         i < length (PIDs s) \<and> i < length (tau_cmd s) \<and> i < length (joint_handles s)
      then let c = computeCommand lib (PIDs s ! i)
                    (q (joint_des_states s) ! i - q (joint_msr_states s) ! i) period
           in Some (s\<lparr>PIDs := (PIDs s)[i := snd c], tau_cmd := (tau_cmd s)[i := fst c],
                 joint_handles := (joint_handles s)[i := setCommand (fst c) (joint_handles s ! i)]\<rparr>)
      else None)"
  by (simp add: set_controls_for_joints_def elem_get_def elem_set_def split_beta Let_def)

lemma forget_set_controls_for_joints:
  "set_controls_for_joints lib period i (forget_velocities s) =
     map_option forget_velocities (set_controls_for_joints lib period i s)"
proof -
  have reads: "q (joint_des_states (forget_velocities s)) = q (joint_des_states s)"
    "q (joint_msr_states (forget_velocities s)) = q (joint_msr_states s)"
    "PIDs (forget_velocities s) = PIDs s" "tau_cmd (forget_velocities s) = tau_cmd s"
    "joint_handles (forget_velocities s) = map (\<lambda>h. h\<lparr>velocity := 0\<rparr>) (joint_handles s)"
    by (simp_all add: forget_velocities_def)
  show ?thesis
    unfolding set_controls_for_joints_eq reads
    by (simp add: Let_def setCommand_forget map_update[symmetric] forget_controls_update
             del: map_update)
qed

lemma forget_update:
  "update lib time period (forget_velocities s) =
     map_option forget_velocities (update lib time period s)"
proof -
  note loops =
    for_loop_commute[where f = forget_velocities and body = get_joint_positions,
      OF forget_get_joint_positions]
    for_loop_commute[where f = forget_velocities and body = computing_q_dot,
      OF forget_computing_q_dot]
    for_loop_commute[where f = forget_velocities and body = "integrating_q_dot lib period",
      OF forget_integrating_q_dot]
    for_loop_commute[where f = forget_velocities and body = "set_controls_for_joints lib period",
      OF forget_set_controls_for_joints]
  show ?thesis
  proof (cases "for_loop [0..<length (joint_handles s)] get_joint_positions s")
    case None
    then show ?thesis by (simp add: update_def forget_fields loops)
  next
    case s1: (Some s1)
    show ?thesis
    proof (cases "computing_Jacobian lib s1")
      case None
      with s1 show ?thesis
        by (simp add: update_def forget_fields loops forget_computing_Jacobian)
    next
      case s2: (Some s2)
      show ?thesis
      proof (cases "computing_forward_kinematics lib (computing_J_pinv lib s2)")
        case None
        with s1 s2 show ?thesis
          by (simp add: update_def forget_fields loops forget_computing_Jacobian
                forget_computing_J_pinv forget_computing_forward_kinematics)
      next
        case s3: (Some s3)
        show ?thesis
        proof (cases "end_effector_displacement s3")
          case None
          with s1 s2 s3 show ?thesis
            by (simp add: update_def forget_fields loops forget_computing_Jacobian
                  forget_computing_J_pinv forget_computing_forward_kinematics
                  forget_end_effector_displacement)
        next
          case s4: (Some s4)
          show ?thesis
          proof (cases "for_loop [0..<rows (J_pinv s4)] computing_q_dot s4")
            case None
            with s1 s2 s3 s4 show ?thesis
              by (simp add: update_def forget_fields loops forget_computing_Jacobian
                    forget_computing_J_pinv forget_computing_forward_kinematics
                    forget_end_effector_displacement)
          next
            case s5: (Some s5)
            show ?thesis
            proof (cases "for_loop [0..<length (joint_handles s5)]
                            (integrating_q_dot lib period) s5")
              case None
              with s1 s2 s3 s4 s5 show ?thesis
                by (simp add: update_def forget_fields loops forget_computing_Jacobian
                      forget_computing_J_pinv forget_computing_forward_kinematics
                      forget_end_effector_displacement)
            next
              case s6: (Some s6)
              with s1 s2 s3 s4 s5 show ?thesis
                by (simp add: update_def forget_fields loops forget_computing_Jacobian
                      forget_computing_J_pinv forget_computing_forward_kinematics
                      forget_end_effector_displacement)
            qed
          qed
        qed
      qed
    qed
  qed
qed

text \<open>
  Claim C9. The measured joint velocities are read and stored, and have no influence.
  Two runs of \<^verbatim>\<open>update\<close> on controllers that differ at most in the measured joint
  velocities (those the joints report and those stored in the measured joint state)
  either both have no defined result or both return, with the same torque vector, the
  same commands written to the joints, and controllers that again differ at most in
  the measured joint velocities. On a controller of consistent sizes \<^verbatim>\<open>update\<close> and
  \<^verbatim>\<open>starting\<close> return with the velocities the joints report stored in the measured
  joint state.
\<close>

theorem update_ignores_measured_velocities:
  assumes "same_but_velocities s t"
  shows "((update lib time period s = None \<and> update lib time period t = None) \<or>
          (\<exists>s' t'. update lib time period s = Some s' \<and> update lib time period t = Some t' \<and>
             same_but_velocities s' t' \<and> tau_cmd s' = tau_cmd t' \<and>
             map command (joint_handles s') = map command (joint_handles t'))) \<and>
         (sized N s \<and> shape_preserving lib \<longrightarrow>
            (\<exists>s'. update lib time period s = Some s' \<and>
                  qdot (joint_msr_states s') = map velocity (joint_handles s))) \<and>
         (sized N s \<longrightarrow>
            (\<exists>s'. starting lib time s = Some s' \<and>
                  qdot (joint_msr_states s') = map velocity (joint_handles s)))"
proof (intro conjI impI)
  from assms have "update lib time period (forget_velocities s)
      = update lib time period (forget_velocities t)"
    by (simp add: same_but_velocities_def)
  then have eq: "map_option forget_velocities (update lib time period s)
      = map_option forget_velocities (update lib time period t)"
    by (simp add: forget_update)
  show "(update lib time period s = None \<and> update lib time period t = None) \<or>
          (\<exists>s' t'. update lib time period s = Some s' \<and> update lib time period t = Some t' \<and>
             same_but_velocities s' t' \<and> tau_cmd s' = tau_cmd t' \<and>
             map command (joint_handles s') = map command (joint_handles t'))"
  proof (cases "update lib time period s")
    case None
    with eq show ?thesis by simp
  next
    case (Some s')
    with eq obtain t' where t': "update lib time period t = Some t'"
      and f: "forget_velocities s' = forget_velocities t'"
      by (cases "update lib time period t") auto
    from f have "tau_cmd (forget_velocities s') = tau_cmd (forget_velocities t')"
      "map command (joint_handles (forget_velocities s'))
         = map command (joint_handles (forget_velocities t'))"
      by simp_all
    then have "tau_cmd s' = tau_cmd t'"
      "map command (joint_handles s') = map command (joint_handles t')"
      by (simp_all only: forget_fields)
    with Some t' f show ?thesis by (simp add: same_but_velocities_def)
  qed
next
  assume "sized N s \<and> shape_preserving lib"
  then have sz: "sized N s" and sh: "shape_preserving lib" by simp_all
  from update_sized[OF sz sh, of time period] obtain s' where
    "update lib time period s = Some s'"
    "joint_msr_states s' = (joint_msr_states s)
        \<lparr>q := map position (joint_handles s), qdot := map velocity (joint_handles s)\<rparr>"
    by blast
  then show "\<exists>s'. update lib time period s = Some s' \<and>
                  qdot (joint_msr_states s') = map velocity (joint_handles s)"
    by simp
next
  assume sz: "sized N s"
  then obtain svf where "fk_pos_solver s = Some svf" by (auto simp: sized_def)
  from starting_sized[OF sz this, of lib time]
  show "\<exists>s'. starting lib time s = Some s' \<and>
                  qdot (joint_msr_states s') = map velocity (joint_handles s)"
    by simp
qed

theorem update_ignores_measured_velocities_witness:
  "\<exists>s' t'. update demo_lib demo_time demo_period demo_state = Some s' \<and>
     update demo_lib demo_time demo_period
       (demo_state\<lparr>joint_handles := map (\<lambda>h. h\<lparr>velocity := 5\<rparr>) (joint_handles demo_state),
                   joint_msr_states := \<lparr>q = [0, 0], qdot = [3, 4]\<rparr>\<rparr>) = Some t' \<and>
     tau_cmd s' = tau_cmd t' \<and> same_but_velocities s' t' \<and>
     qdot (joint_msr_states s') = [0, 0]"
proof -
  let ?t = "demo_state\<lparr>joint_handles := map (\<lambda>h. h\<lparr>velocity := 5\<rparr>) (joint_handles demo_state),
                   joint_msr_states := \<lparr>q = [0, 0], qdot = [3, 4]\<rparr>\<rparr>"
  have same: "same_but_velocities demo_state ?t"
    by (simp add: same_but_velocities_def forget_velocities_def demo_state_def
          constructed_def demo_handle_def)
  note inst = update_ignores_measured_velocities[OF same, of demo_lib demo_time demo_period 2]
  from inst sized_demo_state shape_preserving_demo_lib obtain s' where
    s': "update demo_lib demo_time demo_period demo_state = Some s'"
    and v: "qdot (joint_msr_states s') = map velocity (joint_handles demo_state)"
    by blast
  from inst s' obtain t' where "update demo_lib demo_time demo_period ?t = Some t'"
    "same_but_velocities s' t'" "tau_cmd s' = tau_cmd t'"
    by auto
  with s' v show ?thesis
    by (intro exI[of _ s'] exI[of _ t']) (simp add: demo_state_def demo_handle_def)
qed

subsection \<open>A joint without a handle\<close>

lemma upt_1: "[0..<1] = [0]"
  by (simp add: upt_rec)


text \<open>
  Claim C1 fails on the controller \<^verbatim>\<open>init\<close> leaves for a chain that starts at its
  first movable joint (two joints, one handle). After a pose message, \<^verbatim>\<open>update\<close>
  returns; the desired joint velocity is computed for both joints, \<open>23/4\<close> each, in the
  loop over the rows of the pseudo-inverse; but the integration loop runs over the
  joint handles, so the desired position of the first joint advances by
  \<open>0.01 * 23/4\<close> and that of the second joint stays where it was.
\<close>

theorem update_skips_joint_without_handle:
  "\<exists>s0 s'. init (demo_world bare_chain) demo_robot demo_node constructed
               = Inr (True, demo_node, s0) \<and>
           getNrOfJoints (kdl_chain s0) = 2 \<and>
           map name (joint_handles s0) = [''a2''] \<and>
           q (joint_des_states (command_configuration demo_pose s0)) = [0, 0] \<and>
           update coupled_lib demo_time demo_period (command_configuration demo_pose s0)
               = Some s' \<and>
           qdot (joint_des_states s') = [23 / 4, 23 / 4] \<and>
           q (joint_des_states s') = [23 / 400, 0]"
proof -
  define t0 where "t0 = command_configuration demo_pose bare_state"
  have t0: "t0 = bare_state\<lparr>x_des := \<lparr>M = Rotation_Identity, p = Vector 1 2 3\<rparr>\<rparr>"
    by (simp add: t0_def command_configuration_def Frame_of_Vector_def demo_pose_def)
  define Jn where "Jn = JntToJac coupled_lib (ChainJntToJacSolver bare_chain) [1 / 4, 0] (J bare_state)"
  define Pn :: "real Matrix" where "Pn = \<lparr>rows = 2, cols = 6, coeff = \<lambda>i k. 1\<rparr>"
  define s1 where "s1 = t0\<lparr>joint_msr_states := \<lparr>q = [1 / 4, 0], qdot = [0, 0]\<rparr>\<rparr>"
  define s2 where "s2 = t0\<lparr>joint_msr_states := \<lparr>q = [1 / 4, 0], qdot = [0, 0]\<rparr>, J := Jn\<rparr>"
  define s3 where "s3 = t0\<lparr>joint_msr_states := \<lparr>q = [1 / 4, 0], qdot = [0, 0]\<rparr>, J := Jn,
      J_pinv := Pn, x := \<lparr>M = Rotation_Identity, p = Vector (1 / 4) 0 0\<rparr>\<rparr>"
  define s4 where "s4 = s3\<lparr>x_err := \<lparr>vel = Vector (3 / 4) 2 3, rot = Vector 0 0 0\<rparr>\<rparr>"
  define s5 where "s5 = s4\<lparr>joint_des_states := \<lparr>q = [0, 0], qdot = [23 / 4, 23 / 4]\<rparr>\<rparr>"
  define s6 where "s6 = s4\<lparr>joint_des_states := \<lparr>q = [23 / 400, 0], qdot = [23 / 4, 23 / 4]\<rparr>\<rparr>"
  have 1: "for_loop [0..<length (joint_handles t0)] get_joint_positions t0 = Some s1"
    by (simp add: t0 s1_def bare_state_fields upt_1 get_joint_positions_def elem_get_def
          elem_set_def demo_handle_def)
  have 2: "computing_Jacobian coupled_lib s1 = Some s2"
    by (simp add: computing_Jacobian_def s1_def s2_def t0 bare_state_fields Jn_def)
  have Pn: "pseudo_inverse coupled_lib Jn P0 = Pn" for P0
    by (simp add: coupled_lib_def demo_lib_def Jn_def Pn_def bare_state_fields)
  have 3: "computing_forward_kinematics coupled_lib (computing_J_pinv coupled_lib s2) = Some s3"
    by (simp add: computing_forward_kinematics_def computing_J_pinv_def s2_def s3_def t0
          bare_state_fields Pn)
       (simp add: coupled_lib_def demo_lib_def)
  have 4: "end_effector_displacement s3 = Some s4"
    by (simp add: end_effector_displacement_result s4_def s3_def t0)
  have "for_loop [0..<2] computing_q_dot s4 =
     Some (s4\<lparr>joint_des_states := (joint_des_states s4)
       \<lparr>qdot := map (row_times_twist (J_pinv s4) (x_err s4)) [0..<2]\<rparr>\<rparr>)"
    by (rule computing_q_dot_loop)
       (simp_all add: s4_def s3_def t0 bare_state_fields Pn_def)
  then have 5: "for_loop [0..<rows (J_pinv s4)] computing_q_dot s4 = Some s5"
    by (simp add: s5_def s4_def s3_def t0 bare_state_fields Pn_def upt_rec)
  have 6: "for_loop [0..<length (joint_handles s5)] (integrating_q_dot coupled_lib demo_period) s5
      = Some s6"
    by (simp add: s5_def s6_def s4_def s3_def t0 bare_state_fields upt_1 integrating_q_dot_def
          elem_get_def elem_set_def coupled_lib_def demo_lib_def demo_period_def)
  have "\<exists>s'. for_loop [0..<length (joint_handles s6)]
            (set_controls_for_joints coupled_lib demo_period) s6 = Some s'"
    by (simp add: s6_def s4_def s3_def t0 bare_state_fields upt_1 set_controls_for_joints_def
          elem_get_def elem_set_def split_beta)
  then obtain s' where 7: "for_loop [0..<length (joint_handles s6)]
            (set_controls_for_joints coupled_lib demo_period) s6 = Some s'" by blast
  have "joint_des_states s' = joint_des_states s6"
    by (rule for_loop_preserves[OF 7, where P = "\<lambda>t. joint_des_states t = joint_des_states s6"])
       (auto dest!: set_controls_for_joints_frame)
  then have d: "qdot (joint_des_states s') = [23 / 4, 23 / 4]"
    "q (joint_des_states s') = [23 / 400, 0]"
    by (simp_all add: s6_def)
  have u: "update coupled_lib demo_time demo_period t0 = Some s'"
    by (simp add: update_def 1 2 3 4 5 6 7)
  have "getNrOfJoints (kdl_chain bare_state) = 2"
    by (simp add: bare_state_def init_solvers_and_sizes_def Let_def getNrOfJoints_def
          bare_chain_def demo_segment_def)
  moreover have "map name (joint_handles bare_state) = [''a2'']"
    by (simp add: bare_state_fields demo_handle_def)
  moreover have "q (joint_des_states t0) = [0, 0]"
    by (simp add: t0 bare_state_fields)
  ultimately show ?thesis
    using init_bare u d unfolding t0_def
    by (intro exI[of _ bare_state] exI[of _ s']) simp
qed

end
